theory Spec2Isabelle
  imports Complex_Main
begin

section \<open>Schedul-AI: history cache, node analyzer, scoring engine, decision blender\<close>

text \<open>
  A shallow embedding of \<^verbatim>\<open>internal/types/pod_cache.go\<close>,
  \<^verbatim>\<open>internal/types/metrics.go\<close> and
  \<^verbatim>\<open>internal/scheduler/ai_scheduler.go\<close>.

  Conventions of the embedding:
  \<^item> \<^verbatim>\<open>float64\<close> is \<^typ>\<open>real\<close>: IEEE rounding is abstracted away, every
    comparison and arithmetic operation is the exact one.
  \<^item> \<^verbatim>\<open>time.Time\<close> is an \<^typ>\<open>int\<close> of nanoseconds since the epoch and
    \<^verbatim>\<open>time.Duration\<close> an \<^typ>\<open>int\<close> of nanoseconds (no saturation).
  \<^item> \<^verbatim>\<open>time.Now()\<close> is a parameter \<open>now\<close> of every function that reads the clock;
    one call of a function reads one clock value.
  \<^item> Go's \<^verbatim>\<open>int\<close> is \<^typ>\<open>int\<close>.
  \<^item> A Go map is a HOL map; reading a missing key of a map of slices gives the nil slice,
    that is the empty list, and of a map of floats gives 0.
  \<^item> The mutex is not modelled: every operation of the cache is one atomic step.
\<close>

subsection \<open>Time\<close>

definition Hour :: int where
  "Hour = 3600000000000"

text \<open>Go's integer division truncates towards zero.\<close>

definition duration_div :: "int \<Rightarrow> int \<Rightarrow> int" where
  "duration_div a b = sgn a * sgn b * (\<bar>a\<bar> div \<bar>b\<bar>)"

text \<open>\<^verbatim>\<open>t.After(u)\<close>\<close>

definition After :: "int \<Rightarrow> int \<Rightarrow> bool" where
  "After t u = (u < t)"

subsection \<open>metrics.go: PodMetrics\<close>

record PodMetrics =
  PodName :: string
  NodeName :: string
  Namespace :: string
  Status :: string
  RestartCount :: int
  CreatedAt :: int
  Timestamp :: int

subsection \<open>pod\_cache.go: NodeAnalysis and calculateNodeAnalysis\<close>

text \<open>
  The recommendation strings of the source are Turkish texts; each is one constructor here,
  in the order of the source.
\<close>

datatype Recommendation = RecHighFailureRate | RecHighRestartRate | RecLowStability

record NodeAnalysis =
  AnalysisNodeName :: string
  TotalPods :: int
  FailedPods :: int
  SuccessfulPods :: int
  FailureRate :: real
  AverageRestartCount :: real
  AverageLifetime :: int
  StabilityScore :: real
  Recommendations :: "Recommendation list"

text \<open>The zero value \<^verbatim>\<open>NodeAnalysis{}\<close>.\<close>

definition NodeAnalysis_zero :: NodeAnalysis where
  "NodeAnalysis_zero =
     \<lparr>AnalysisNodeName = [], TotalPods = 0, FailedPods = 0, SuccessfulPods = 0,
      FailureRate = 0, AverageRestartCount = 0, AverageLifetime = 0,
      StabilityScore = 0, Recommendations = []\<rparr>"

text \<open>The loop of \<^verbatim>\<open>calculateNodeAnalysis\<close>: its three accumulators.\<close>

definition failedPods_of :: "PodMetrics list \<Rightarrow> int" where
  "failedPods_of metrics = int (length (filter (\<lambda>m. Status m = ''Failed'') metrics))"

definition totalRestarts_of :: "PodMetrics list \<Rightarrow> int" where
  "totalRestarts_of metrics = sum_list (map RestartCount metrics)"

definition totalLifetime_of :: "int \<Rightarrow> PodMetrics list \<Rightarrow> int" where
  "totalLifetime_of now metrics = sum_list (map (\<lambda>m. now - CreatedAt m) metrics)"

definition calculateNodeAnalysis :: "int \<Rightarrow> PodMetrics list \<Rightarrow> NodeAnalysis" where
  "calculateNodeAnalysis now metrics =
     (if length metrics = 0 then NodeAnalysis_zero
      else
        let failedPods = failedPods_of metrics;
            totalRestarts = totalRestarts_of metrics;
            totalLifetime = totalLifetime_of now metrics;
            failureRate = real_of_int failedPods / real (length metrics);
            avgRestartCount = real_of_int totalRestarts / real (length metrics);
            avgLifetime = duration_div totalLifetime (int (length metrics));
            stabilityScore = 1 - failureRate - (avgRestartCount * (1 / 10));
            recommendations =
              (if failureRate > 1 / 10 then [RecHighFailureRate] else []) @
              (if avgRestartCount > 2 then [RecHighRestartRate] else []) @
              (if stabilityScore < 7 / 10 then [RecLowStability] else [])
        in \<lparr>AnalysisNodeName = NodeName (hd metrics),
            TotalPods = int (length metrics),
            FailedPods = failedPods,
            SuccessfulPods = int (length metrics) - failedPods,
            FailureRate = failureRate,
            AverageRestartCount = avgRestartCount,
            AverageLifetime = avgLifetime,
            StabilityScore = stabilityScore,
            Recommendations = recommendations\<rparr>)"

subsection \<open>pod\_cache.go: PodMetricsCache\<close>

record PodMetricsCache =
  nodePodHistory :: "string \<rightharpoonup> PodMetrics list"
  failureRates :: "string \<rightharpoonup> real"
  restartRates :: "string \<rightharpoonup> real"
  lastUpdated :: "string \<rightharpoonup> int"

definition NewPodMetricsCache :: PodMetricsCache where
  "NewPodMetricsCache =
     \<lparr>nodePodHistory = Map.empty, failureRates = Map.empty,
      restartRates = Map.empty, lastUpdated = Map.empty\<rparr>"

text \<open>\<^verbatim>\<open>pmc.nodePodHistory[nodeName]\<close>: a missing key reads as the nil slice.\<close>

definition GetNodeMetrics :: "PodMetricsCache \<Rightarrow> string \<Rightarrow> PodMetrics list" where
  "GetNodeMetrics pmc nodeName =
     (case nodePodHistory pmc nodeName of None \<Rightarrow> [] | Some ms \<Rightarrow> ms)"

definition GetFailureRate :: "PodMetricsCache \<Rightarrow> string \<Rightarrow> real" where
  "GetFailureRate pmc nodeName =
     (case failureRates pmc nodeName of None \<Rightarrow> 0 | Some r \<Rightarrow> r)"

definition GetRestartRate :: "PodMetricsCache \<Rightarrow> string \<Rightarrow> real" where
  "GetRestartRate pmc nodeName =
     (case restartRates pmc nodeName of None \<Rightarrow> 0 | Some r \<Rightarrow> r)"

definition cleanOldData :: "int \<Rightarrow> PodMetricsCache \<Rightarrow> string \<Rightarrow> int \<Rightarrow> PodMetricsCache" where
  "cleanOldData now pmc nodeName maxAge =
     (let cutoffTime = now - maxAge;
          filteredMetrics = filter (\<lambda>metric. After (Timestamp metric) cutoffTime)
                                   (GetNodeMetrics pmc nodeName)
      in pmc\<lparr>nodePodHistory := (nodePodHistory pmc)(nodeName \<mapsto> filteredMetrics)\<rparr>)"

definition updateStatistics :: "int \<Rightarrow> PodMetricsCache \<Rightarrow> string \<Rightarrow> PodMetricsCache" where
  "updateStatistics now pmc nodeName =
     (let metrics = GetNodeMetrics pmc nodeName
      in if length metrics = 0 then pmc
         else
           let failedPods = failedPods_of metrics;
               totalRestarts = totalRestarts_of metrics;
               failureRate = real_of_int failedPods / real (length metrics);
               restartRate = real_of_int totalRestarts / real (length metrics)
           in pmc\<lparr>failureRates := (failureRates pmc)(nodeName \<mapsto> failureRate),
                   restartRates := (restartRates pmc)(nodeName \<mapsto> restartRate),
                   lastUpdated := (lastUpdated pmc)(nodeName \<mapsto> now)\<rparr>)"

definition UpdateCache :: "int \<Rightarrow> PodMetricsCache \<Rightarrow> PodMetrics \<Rightarrow> PodMetricsCache" where
  "UpdateCache now pmc podMetrics =
     (let nodeName = NodeName podMetrics;
          pmc1 = pmc\<lparr>nodePodHistory :=
                       (nodePodHistory pmc)(nodeName \<mapsto> GetNodeMetrics pmc nodeName @ [podMetrics])\<rparr>;
          pmc2 = cleanOldData now pmc1 nodeName (7 * 24 * Hour)
      in updateStatistics now pmc2 nodeName)"

definition GetNodeAnalysis :: "int \<Rightarrow> PodMetricsCache \<Rightarrow> string \<Rightarrow> int \<Rightarrow> NodeAnalysis" where
  "GetNodeAnalysis now pmc nodeName timeWindow =
     (let metrics = GetNodeMetrics pmc nodeName;
          cutoffTime = now - timeWindow;
          recentMetrics = filter (\<lambda>metric. After (Timestamp metric) cutoffTime) metrics
      in calculateNodeAnalysis now recentMetrics)"

text \<open>A run of the collector: a sequence of writes, each at its own clock value.\<close>

fun records :: "PodMetricsCache \<Rightarrow> (int \<times> PodMetrics) list \<Rightarrow> PodMetricsCache" where
  "records pmc [] = pmc"
| "records pmc ((now, podMetrics) # ws) = records (UpdateCache now pmc podMetrics) ws"

subsection \<open>Cluster state: the part of a Kubernetes node that the scheduler reads\<close>

text \<open>
  \<^verbatim>\<open>resource.Quantity\<close> belongs to the Kubernetes library. It is taken here as a whole
  number of milli-units: \<^verbatim>\<open>MilliValue()\<close> reads it, \<^verbatim>\<open>Value()\<close> rounds up to whole
  units, \<^verbatim>\<open>IsZero()\<close> tests for zero.
\<close>

datatype Quantity = Quantity int

fun MilliValue :: "Quantity \<Rightarrow> int" where
  "MilliValue (Quantity m) = m"

fun QValue :: "Quantity \<Rightarrow> int" where
  "QValue (Quantity m) = - ((- m) div 1000)"

fun IsZero :: "Quantity \<Rightarrow> bool" where
  "IsZero (Quantity m) = (m = 0)"

record NodeCondition =
  CondType :: string
  CondStatus :: string

record Node =
  Name :: string
  Allocatable :: "string \<rightharpoonup> Quantity"
  Conditions :: "NodeCondition list"
  Taints :: "string list"

subsection \<open>k8s\_client.go: ScoringConfig\<close>

record ScoringConfig =
  CPUWeight :: real
  MemoryWeight :: real
  NodeReadyWeight :: real
  TaintWeight :: real
  FailedPodsWeight :: real
  RestartWeight :: real

text \<open>The \<^verbatim>\<open>scheduler.scoring\<close> block of \<^verbatim>\<open>config/config.yaml\<close>.\<close>

definition reference_scoring :: ScoringConfig where
  "reference_scoring =
     \<lparr>CPUWeight = 30, MemoryWeight = 30, NodeReadyWeight = 20,
      TaintWeight = 10, FailedPodsWeight = 20, RestartWeight = 10\<rparr>"

subsection \<open>ai\_scheduler.go: the scheduler and its collaborators\<close>

text \<open>
  The reason strings of the source are Turkish texts, some with formatted numbers. Each
  text is one constructor, carrying the numbers the source formats into it.
\<close>

datatype ReasonItem =
    ReasonCPU real real real
  | ReasonMemory real real real
  | ReasonNodeReady
  | ReasonNodeNotReady
  | ReasonNoTaint
  | ReasonHasTaint
  | ReasonHighStability
  | ReasonMidStability
  | ReasonLowStability
  | ReasonLowFailure
  | ReasonMidFailure real
  | ReasonHighFailure real
  | ReasonLowRestart
  | ReasonMidRestart real
  | ReasonHighRestart real
  | ReasonLongLifetime
  | ReasonNormalLifetime
  | ReasonShortLifetime

text \<open>\<^verbatim>\<open>fmt.Sprintf("Toplam skor: %.2f - %s", score, reasons)\<close>\<close>

datatype TotalReason = TotalReason real "ReasonItem list"

record NodeScore =
  ScoreNodeName :: string
  Score :: real
  Reason :: TotalReason

record PodAnalysisResult =
  AnalysisScore :: real
  Reasons :: "ReasonItem list"

text \<open>A value decoded by \<^verbatim>\<open>encoding/json\<close> into \<^verbatim>\<open>interface{}\<close>.\<close>

datatype JSONValue =
    JNull
  | JBool bool
  | JNumber real
  | JString string
  | JArray "JSONValue list"
  | JObject "(string \<times> JSONValue) list"

text \<open>
  The scheduler. Its collaborators are fields:
  \<^item> \<open>podLookup namespace podName\<close>: whether the pod lookup of the cluster succeeds;
  \<^item> \<open>nodeItems\<close>: the node list of the cluster, \<open>None\<close> when listing fails;
  \<^item> \<open>metricsClient\<close>: \<open>None\<close> for the nil client, otherwise the live usage
    (CPU cores, memory GB) of a node, \<open>None\<close> when the metrics call fails;
  \<^item> \<open>aiAnalysis nodeName\<close>: the decoded answer of the prediction service,
    \<open>None\<close> when \<^verbatim>\<open>getAIAnalysis\<close> returns an error.
\<close>

record AIScheduler =
  podLookup :: "string \<Rightarrow> string \<Rightarrow> bool"
  nodeItems :: "Node list option"
  metricsClient :: "(string \<Rightarrow> (real \<times> real) option) option"
  aiAnalysis :: "string \<Rightarrow> (string \<rightharpoonup> JSONValue) option"
  config :: ScoringConfig
  podCache :: PodMetricsCache

datatype error = PodNotFound | NodeListFailed

subsection \<open>ai\_scheduler.go: analyzePodMetrics\<close>

text \<open>The four if-chains of \<^verbatim>\<open>analyzePodMetrics\<close>, each with what it adds to the score.\<close>

definition stabilityTerm :: "ScoringConfig \<Rightarrow> real \<Rightarrow> real \<times> ReasonItem list" where
  "stabilityTerm cfg stabilityScore =
     (if stabilityScore > 8 / 10 then (FailedPodsWeight cfg, [ReasonHighStability])
      else if stabilityScore > 6 / 10 then (FailedPodsWeight cfg / 2, [ReasonMidStability])
      else (0, [ReasonLowStability]))"

definition failureTerm :: "ScoringConfig \<Rightarrow> real \<Rightarrow> real \<times> ReasonItem list" where
  "failureTerm cfg failureRate =
     (if failureRate < 5 / 100 then (FailedPodsWeight cfg, [ReasonLowFailure])
      else if failureRate < 1 / 10 then (FailedPodsWeight cfg / 2, [ReasonMidFailure failureRate])
      else (- FailedPodsWeight cfg, [ReasonHighFailure failureRate]))"

definition restartTerm :: "ScoringConfig \<Rightarrow> real \<Rightarrow> real \<times> ReasonItem list" where
  "restartTerm cfg avgRestart =
     (if avgRestart \<le> 1 then (RestartWeight cfg, [ReasonLowRestart])
      else if avgRestart \<le> 2 then (0, [ReasonMidRestart avgRestart])
      else (- RestartWeight cfg, [ReasonHighRestart avgRestart]))"

definition lifetimeTerm :: "int \<Rightarrow> real \<times> ReasonItem list" where
  "lifetimeTerm avgLifetime =
     (if avgLifetime > 24 * Hour then (10, [ReasonLongLifetime])
      else if avgLifetime > 1 * Hour then (0, [ReasonNormalLifetime])
      else (- 10, [ReasonShortLifetime]))"

text \<open>The body of \<^verbatim>\<open>analyzePodMetrics\<close> once the 24h analysis is at hand.\<close>

definition scoreAnalysis :: "ScoringConfig \<Rightarrow> NodeAnalysis \<Rightarrow> PodAnalysisResult" where
  "scoreAnalysis cfg analysis =
     (let (s1, r1) = stabilityTerm cfg (StabilityScore analysis);
          (s2, r2) = failureTerm cfg (FailureRate analysis);
          (s3, r3) = restartTerm cfg (AverageRestartCount analysis);
          (s4, r4) = lifetimeTerm (AverageLifetime analysis)
      in \<lparr>AnalysisScore = 0 + s1 + s2 + s3 + s4, Reasons = r1 @ r2 @ r3 @ r4\<rparr>)"

definition analyzePodMetrics :: "int \<Rightarrow> AIScheduler \<Rightarrow> string \<Rightarrow> PodAnalysisResult" where
  "analyzePodMetrics now as nodeName =
     scoreAnalysis (config as) (GetNodeAnalysis now (podCache as) nodeName (24 * Hour))"

subsection \<open>ai\_scheduler.go: calculateNodeScore\<close>

text \<open>The live usage read of the CPU and memory blocks, with their fallback to 0.\<close>

definition cpuUsage_of :: "AIScheduler \<Rightarrow> string \<Rightarrow> real" where
  "cpuUsage_of as nodeName =
     (case metricsClient as of
        None \<Rightarrow> 0
      | Some mc \<Rightarrow> (case mc nodeName of None \<Rightarrow> 0 | Some (cpu, mem) \<Rightarrow> cpu))"

definition memUsage_of :: "AIScheduler \<Rightarrow> string \<Rightarrow> real" where
  "memUsage_of as nodeName =
     (case metricsClient as of
        None \<Rightarrow> 0
      | Some mc \<Rightarrow> (case mc nodeName of None \<Rightarrow> 0 | Some (cpu, mem) \<Rightarrow> mem))"

definition cpuTerm :: "AIScheduler \<Rightarrow> Node \<Rightarrow> real \<times> ReasonItem list" where
  "cpuTerm as node =
     (case Allocatable node ''cpu'' of
        None \<Rightarrow> (0, [])
      | Some cpu \<Rightarrow>
          if IsZero cpu then (0, [])
          else
            let cpuCapacity = real_of_int (MilliValue cpu) / 1000;
                cpuUsage = cpuUsage_of as (Name node)
            in if cpuCapacity > 0 then
                 let cpuPercent = (cpuUsage / cpuCapacity) * 100;
                     cpuScore0 = CPUWeight (config as) * (1 - cpuPercent / 100);
                     cpuScore = (if cpuScore0 < 0 then 0 else cpuScore0)
                 in (cpuScore, [ReasonCPU cpuScore cpuUsage cpuCapacity])
               else (0, []))"

definition memTerm :: "AIScheduler \<Rightarrow> Node \<Rightarrow> real \<times> ReasonItem list" where
  "memTerm as node =
     (case Allocatable node ''memory'' of
        None \<Rightarrow> (0, [])
      | Some memory \<Rightarrow>
          if IsZero memory then (0, [])
          else
            let memCapacity = real_of_int (QValue memory) / (1024 * 1024 * 1024);
                memUsage = memUsage_of as (Name node)
            in if memCapacity > 0 then
                 let memPercent = (memUsage / memCapacity) * 100;
                     memScore0 = MemoryWeight (config as) * (1 - memPercent / 100);
                     memScore = (if memScore0 < 0 then 0 else memScore0)
                 in (memScore, [ReasonMemory memScore memUsage memCapacity])
               else (0, []))"

definition NodeReady :: string where
  "NodeReady = ''Ready''"

definition ConditionTrue :: string where
  "ConditionTrue = ''True''"

definition readyTerm :: "AIScheduler \<Rightarrow> Node \<Rightarrow> real \<times> ReasonItem list" where
  "readyTerm as node =
     (if list_ex (\<lambda>condition. CondType condition = NodeReady \<and>
                                 CondStatus condition = ConditionTrue) (Conditions node)
      then (NodeReadyWeight (config as), [ReasonNodeReady])
      else (0, [ReasonNodeNotReady]))"

definition taintTerm :: "AIScheduler \<Rightarrow> Node \<Rightarrow> real \<times> ReasonItem list" where
  "taintTerm as node =
     (if length (Taints node) = 0 then (TaintWeight (config as), [ReasonNoTaint])
      else (0, [ReasonHasTaint]))"

definition calculateNodeScore :: "int \<Rightarrow> AIScheduler \<Rightarrow> Node \<Rightarrow> real \<times> TotalReason" where
  "calculateNodeScore now as node =
     (let (s1, r1) = cpuTerm as node;
          (s2, r2) = memTerm as node;
          (s3, r3) = readyTerm as node;
          (s4, r4) = taintTerm as node;
          podAnalysis = analyzePodMetrics now as (Name node);
          score = 0 + s1 + s2 + s3 + s4 + AnalysisScore podAnalysis;
          reasons = r1 @ r2 @ r3 @ r4 @ Reasons podAnalysis
      in (score, TotalReason score reasons))"

subsection \<open>ai\_scheduler.go: PredictBestNode\<close>

text \<open>The loop over \<^verbatim>\<open>nodes.Items\<close> with its two variables \<open>bestNode\<close> and \<open>bestScore\<close>.\<close>

fun bestNodeLoop ::
  "int \<Rightarrow> AIScheduler \<Rightarrow> Node list \<Rightarrow> NodeScore option \<times> real \<Rightarrow> NodeScore option \<times> real" where
  "bestNodeLoop now as [] (bestNode, bestScore) = (bestNode, bestScore)"
| "bestNodeLoop now as (node # nodes) (bestNode, bestScore) =
     (let (score, reason) = calculateNodeScore now as node
      in if score > bestScore
         then bestNodeLoop now as nodes
                (Some \<lparr>ScoreNodeName = Name node, Score = score, Reason = reason\<rparr>, score)
         else bestNodeLoop now as nodes (bestNode, bestScore))"

text \<open>The result \<open>Inr None\<close> is the pair \<^verbatim>\<open>(nil, nil)\<close> of the source.\<close>

definition PredictBestNode ::
  "int \<Rightarrow> AIScheduler \<Rightarrow> string \<Rightarrow> string \<Rightarrow> error + NodeScore option" where
  "PredictBestNode now as podName namespace =
     (if \<not> podLookup as namespace podName then Inl PodNotFound
      else case nodeItems as of
             None \<Rightarrow> Inl NodeListFailed
           | Some nodes \<Rightarrow> Inr (fst (bestNodeLoop now as nodes (None, - 1))))"

subsection \<open>ai\_scheduler.go: makeFinalDecision\<close>

datatype DecisionReason =
    OnlyGoAlgorithm
  | FinalScoreReason real real real real

text \<open>The type assertion \<^verbatim>\<open>m[key].(float64)\<close> with its \<open>ok\<close> flag.\<close>

definition asFloat64 :: "(string \<rightharpoonup> JSONValue) \<Rightarrow> string \<Rightarrow> real option" where
  "asFloat64 m key = (case m key of Some (JNumber x) \<Rightarrow> Some x | _ \<Rightarrow> None)"

definition makeFinalDecision :: "AIScheduler \<Rightarrow> string \<Rightarrow> real \<Rightarrow> real \<times> DecisionReason" where
  "makeFinalDecision as nodeName goScore =
     (case aiAnalysis as nodeName of
        None \<Rightarrow> (goScore, OnlyGoAlgorithm)
      | Some resp \<Rightarrow>
          (case asFloat64 resp ''score'' of
             None \<Rightarrow> (goScore, OnlyGoAlgorithm)
           | Some aiScore \<Rightarrow>
               let confidence = (case asFloat64 resp ''confidence'' of
                                   None \<Rightarrow> 5 / 10 | Some c \<Rightarrow> c);
                   finalScore = (aiScore * confidence * (7 / 10)) + (goScore * (3 / 10))
               in (finalScore, FinalScoreReason finalScore aiScore goScore confidence)))"

subsection \<open>Concrete inputs\<close>

text \<open>A pod event with the fields the analysis reads, and a cache holding one node's history.\<close>

definition mkPod :: "string \<Rightarrow> string \<Rightarrow> int \<Rightarrow> int \<Rightarrow> int \<Rightarrow> PodMetrics" where
  "mkPod node status restarts created observed =
     \<lparr>PodName = ''pod'', NodeName = node, Namespace = ''default'', Status = status,
      RestartCount = restarts, CreatedAt = created, Timestamp = observed\<rparr>"

definition cacheOf :: "string \<Rightarrow> PodMetrics list \<Rightarrow> PodMetricsCache" where
  "cacheOf node ms = NewPodMetricsCache\<lparr>nodePodHistory := [node \<mapsto> ms]\<rparr>"

definition schedOf :: "ScoringConfig \<Rightarrow> PodMetricsCache \<Rightarrow> AIScheduler" where
  "schedOf cfg pmc =
     \<lparr>podLookup = (\<lambda>namespace podName. True), nodeItems = Some [],
      metricsClient = None, aiAnalysis = (\<lambda>nodeName. None),
      config = cfg, podCache = pmc\<rparr>"

definition schedAI :: "(string \<rightharpoonup> JSONValue) option \<Rightarrow> AIScheduler" where
  "schedAI r = (schedOf reference_scoring NewPodMetricsCache)\<lparr>aiAnalysis := (\<lambda>nodeName. r)\<rparr>"

text \<open>Ten events of node \<open>A\<close>, one of them failed, five restarts in all.\<close>

definition c3_events :: "PodMetrics list" where
  "c3_events =
     [mkPod ''A'' ''Failed'' 0 0 (99 * Hour),
      mkPod ''A'' ''Running'' 1 0 (99 * Hour), mkPod ''A'' ''Running'' 1 0 (99 * Hour),
      mkPod ''A'' ''Running'' 1 0 (99 * Hour), mkPod ''A'' ''Running'' 1 0 (99 * Hour),
      mkPod ''A'' ''Running'' 1 0 (99 * Hour), mkPod ''A'' ''Succeeded'' 0 0 (99 * Hour),
      mkPod ''A'' ''Running'' 0 0 (99 * Hour), mkPod ''A'' ''Pending'' 0 0 (99 * Hour),
      mkPod ''A'' ''Unknown'' 0 0 (99 * Hour)]"

text \<open>Clock values in days, and three events: a stale one and a fresh one on node \<open>A\<close>,
  and one on node \<open>B\<close>.\<close>

definition Day :: int where
  "Day = 24 * Hour"

definition staleA :: PodMetrics where
  "staleA = mkPod ''A'' ''Failed'' 0 0 0"

definition freshA :: PodMetrics where
  "freshA = mkPod ''A'' ''Running'' 0 0 (8 * Day)"

definition freshB :: PodMetrics where
  "freshB = mkPod ''B'' ''Running'' 0 0 (9 * Day)"

text \<open>A failed pod of node \<open>A\<close> observed one hour before day 8.\<close>

definition earlyA :: PodMetrics where
  "earlyA = mkPod ''A'' ''Failed'' 2 0 (7 * Day + 23 * Hour)"

text \<open>
  A healthy node: 4 CPU cores and 8 GiB allocatable, ready, no taint; live usage 0; one
  running pod without restarts, created 100 hours and observed 1 hour before the clock
  value \<open>100 * Hour\<close>.
\<close>

definition healthyNode :: Node where
  "healthyNode =
     \<lparr>Name = ''A'',
      Allocatable = [''cpu'' \<mapsto> Quantity 4000, ''memory'' \<mapsto> Quantity 8589934592000],
      Conditions = [\<lparr>CondType = ''Ready'', CondStatus = ''True''\<rparr>],
      Taints = []\<rparr>"

definition healthySched :: AIScheduler where
  "healthySched =
     (schedOf reference_scoring (cacheOf ''A'' [mkPod ''A'' ''Running'' 0 0 (99 * Hour)]))
       \<lparr>metricsClient := Some (\<lambda>nodeName. Some (0, 0))\<rparr>"

text \<open>
  Two unhealthy nodes \<open>A\<close> and \<open>B\<close>: nothing allocatable, not ready, tainted; each with one
  failed pod with 3 restarts, created 30 minutes before the clock value \<open>100 * Hour\<close>.
\<close>

definition badNode :: "string \<Rightarrow> Node" where
  "badNode name =
     \<lparr>Name = name, Allocatable = Map.empty,
      Conditions = [\<lparr>CondType = ''Ready'', CondStatus = ''False''\<rparr>],
      Taints = [''NoSchedule'']\<rparr>"

definition badPod :: "string \<Rightarrow> PodMetrics" where
  "badPod name = mkPod name ''Failed'' 3 (99 * Hour + 1800000000000) (100 * Hour)"

definition badCache :: PodMetricsCache where
  "badCache = NewPodMetricsCache
     \<lparr>nodePodHistory := [''A'' \<mapsto> [badPod ''A''], ''B'' \<mapsto> [badPod ''B'']]\<rparr>"

definition badSched :: "Node list \<Rightarrow> AIScheduler" where
  "badSched nodes = (schedOf reference_scoring badCache)\<lparr>nodeItems := Some nodes\<rparr>"

text \<open>The healthy node under another name, and the healthy scheduler over a node list.\<close>

definition idleNode :: "string \<Rightarrow> Node" where
  "idleNode name = healthyNode\<lparr>Name := name\<rparr>"

definition idleSched :: "Node list \<Rightarrow> AIScheduler" where
  "idleSched nodes = healthySched\<lparr>nodeItems := Some nodes\<rparr>"

section \<open>Properties\<close>

subsection \<open>The node analyzer\<close>

lemma failedPods_of_le: "failedPods_of ms \<le> int (length ms)"
  by (simp add: failedPods_of_def)

lemma failedPods_of_ge: "0 \<le> failedPods_of ms"
  by (simp add: failedPods_of_def)

text \<open>
  C8. Whenever no event of the node lies inside the queried window (in particular for a node
  the cache has never seen), the analysis is the zero value: every numeric field is 0, the
  node name is empty and there is no recommendation. The analysis has no error result.
\<close>

theorem C8_empty_window_zero_analysis:
  assumes "filter (\<lambda>metric. After (Timestamp metric) (now - timeWindow))
             (GetNodeMetrics pmc nodeName) = []"
  shows "GetNodeAnalysis now pmc nodeName timeWindow =
           \<lparr>AnalysisNodeName = [], TotalPods = 0, FailedPods = 0, SuccessfulPods = 0,
            FailureRate = 0, AverageRestartCount = 0, AverageLifetime = 0,
            StabilityScore = 0, Recommendations = []\<rparr>"
  using assms by (simp add: GetNodeAnalysis_def calculateNodeAnalysis_def NodeAnalysis_zero_def)

theorem C8_witness:
  "filter (\<lambda>metric. After (Timestamp metric) (100 * Hour - 24 * Hour))
          (GetNodeMetrics (cacheOf ''A'' [mkPod ''A'' ''Failed'' 3 0 0]) ''A'') = [] \<and>
   GetNodeAnalysis (100 * Hour) (cacheOf ''A'' [mkPod ''A'' ''Failed'' 3 0 0]) ''A'' (24 * Hour) =
     \<lparr>AnalysisNodeName = [], TotalPods = 0, FailedPods = 0, SuccessfulPods = 0,
      FailureRate = 0, AverageRestartCount = 0, AverageLifetime = 0,
      StabilityScore = 0, Recommendations = []\<rparr>"
proof -
  have h: "filter (\<lambda>metric. After (Timestamp metric) (100 * Hour - 24 * Hour))
          (GetNodeMetrics (cacheOf ''A'' [mkPod ''A'' ''Failed'' 3 0 0]) ''A'') = []"
    by (simp add: GetNodeMetrics_def cacheOf_def NewPodMetricsCache_def mkPod_def After_def Hour_def)
  from h C8_empty_window_zero_analysis [OF h] show ?thesis by simp
qed

text \<open>
  C9. For a non-empty list of events the stability score is exactly
  \<open>1 - failureRate - 0.1 * avgRestartCount\<close>, with no clamping. For every list the failure
  rate lies in \<open>[0, 1]\<close>, and the stability score is negative whenever the average restart
  count exceeds 10. For a single failed pod with one restart it is \<open>-0.1\<close>.
\<close>

theorem C9_stability_unclamped:
  "(metrics \<noteq> [] \<longrightarrow>
      StabilityScore (calculateNodeAnalysis now metrics) =
        1 - FailureRate (calculateNodeAnalysis now metrics)
          - (1 / 10) * AverageRestartCount (calculateNodeAnalysis now metrics)) \<and>
   0 \<le> FailureRate (calculateNodeAnalysis now metrics) \<and>
   FailureRate (calculateNodeAnalysis now metrics) \<le> 1 \<and>
   (AverageRestartCount (calculateNodeAnalysis now metrics) > 10 \<longrightarrow>
      StabilityScore (calculateNodeAnalysis now metrics) < 0) \<and>
   StabilityScore (calculateNodeAnalysis now [mkPod ''A'' ''Failed'' 1 0 0]) = - (1 / 10)"
proof -
  let ?a = "calculateNodeAnalysis now metrics"
  have neg: "StabilityScore (calculateNodeAnalysis now [mkPod ''A'' ''Failed'' 1 0 0]) = - (1 / 10)"
    by (simp add: calculateNodeAnalysis_def Let_def failedPods_of_def totalRestarts_of_def mkPod_def)
  have st: "StabilityScore ?a = 1 - FailureRate ?a - (1 / 10) * AverageRestartCount ?a"
    if "metrics \<noteq> []"
    using that by (simp add: calculateNodeAnalysis_def Let_def)
  have range: "0 \<le> FailureRate ?a \<and> FailureRate ?a \<le> 1"
  proof (cases "metrics = []")
    case True
    then show ?thesis by (simp add: calculateNodeAnalysis_def NodeAnalysis_zero_def)
  next
    case False
    have fr: "FailureRate ?a = real_of_int (failedPods_of metrics) / real (length metrics)"
      using False by (simp add: calculateNodeAnalysis_def Let_def)
    have pos: "0 < real (length metrics)" using False by simp
    have lo: "0 \<le> FailureRate ?a"
      unfolding fr using failedPods_of_ge [of metrics] pos by simp
    have "real_of_int (failedPods_of metrics) \<le> real (length metrics)"
      using failedPods_of_le [of metrics] by linarith
    then have hi: "FailureRate ?a \<le> 1"
      unfolding fr using pos by (simp add: divide_le_eq)
    from lo hi show ?thesis by blast
  qed
  have ng: "StabilityScore ?a < 0" if "AverageRestartCount ?a > 10"
  proof (cases "metrics = []")
    case True
    then show ?thesis using that by (simp add: calculateNodeAnalysis_def NodeAnalysis_zero_def)
  next
    case False
    then show ?thesis using that range st by linarith
  qed
  from st range ng neg show ?thesis by blast
qed

theorem C9_witness:
  "[mkPod ''A'' ''Failed'' 11 0 0] \<noteq> [] \<and>
   StabilityScore (calculateNodeAnalysis 5 [mkPod ''A'' ''Failed'' 11 0 0]) = - (11 / 10) \<and>
   FailureRate (calculateNodeAnalysis 5 [mkPod ''A'' ''Failed'' 11 0 0]) = 1 \<and>
   AverageRestartCount (calculateNodeAnalysis 5 [mkPod ''A'' ''Failed'' 11 0 0]) > 10 \<and>
   StabilityScore (calculateNodeAnalysis 5 [mkPod ''A'' ''Failed'' 11 0 0]) < 0"
proof -
  have fr: "FailureRate (calculateNodeAnalysis 5 [mkPod ''A'' ''Failed'' 11 0 0]) = 1"
    by (simp add: calculateNodeAnalysis_def Let_def failedPods_of_def mkPod_def)
  have ar: "AverageRestartCount (calculateNodeAnalysis 5 [mkPod ''A'' ''Failed'' 11 0 0]) = 11"
    by (simp add: calculateNodeAnalysis_def Let_def totalRestarts_of_def mkPod_def)
  from C9_stability_unclamped [of "[mkPod ''A'' ''Failed'' 11 0 0]" 5] fr ar
  show ?thesis by simp
qed

subsection \<open>The history term and the blender\<close>

lemma scoreAnalysis_score:
  "AnalysisScore (scoreAnalysis cfg a) =
     fst (stabilityTerm cfg (StabilityScore a)) + fst (failureTerm cfg (FailureRate a)) +
     fst (restartTerm cfg (AverageRestartCount a)) + fst (lifetimeTerm (AverageLifetime a))"
  by (simp add: scoreAnalysis_def split_beta Let_def)

text \<open>
  C10. A node with no event in the 24h window gets the zero-value analysis, and its history
  term is not neutral: the stability tier adds nothing, the failure-rate tier adds
  \<open>FailedPodsWeight\<close>, the restart tier adds \<open>RestartWeight\<close> and the lifetime tier
  subtracts 10, in total \<open>FailedPodsWeight + RestartWeight - 10\<close>, which is 20 under the
  reference configuration.
\<close>

theorem C10_empty_history_not_neutral:
  assumes "filter (\<lambda>metric. After (Timestamp metric) (now - 24 * Hour))
             (GetNodeMetrics (podCache as) nodeName) = []"
  shows "fst (stabilityTerm (config as) (StabilityScore (GetNodeAnalysis now (podCache as) nodeName (24 * Hour)))) = 0 \<and>
         fst (failureTerm (config as) (FailureRate (GetNodeAnalysis now (podCache as) nodeName (24 * Hour)))) = FailedPodsWeight (config as) \<and>
         fst (restartTerm (config as) (AverageRestartCount (GetNodeAnalysis now (podCache as) nodeName (24 * Hour)))) = RestartWeight (config as) \<and>
         fst (lifetimeTerm (AverageLifetime (GetNodeAnalysis now (podCache as) nodeName (24 * Hour)))) = - 10 \<and>
         AnalysisScore (analyzePodMetrics now as nodeName) =
           FailedPodsWeight (config as) + RestartWeight (config as) - 10 \<and>
         (config as = reference_scoring \<longrightarrow> AnalysisScore (analyzePodMetrics now as nodeName) = 20)"
proof -
  have z: "GetNodeAnalysis now (podCache as) nodeName (24 * Hour) = NodeAnalysis_zero"
    using assms by (simp add: GetNodeAnalysis_def calculateNodeAnalysis_def)
  have t1: "fst (stabilityTerm (config as) (StabilityScore NodeAnalysis_zero)) = 0"
    by (simp add: stabilityTerm_def NodeAnalysis_zero_def)
  have t2: "fst (failureTerm (config as) (FailureRate NodeAnalysis_zero)) = FailedPodsWeight (config as)"
    by (simp add: failureTerm_def NodeAnalysis_zero_def)
  have t3: "fst (restartTerm (config as) (AverageRestartCount NodeAnalysis_zero)) = RestartWeight (config as)"
    by (simp add: restartTerm_def NodeAnalysis_zero_def)
  have t4: "fst (lifetimeTerm (AverageLifetime NodeAnalysis_zero)) = - 10"
    by (simp add: lifetimeTerm_def NodeAnalysis_zero_def Hour_def)
  have s: "AnalysisScore (analyzePodMetrics now as nodeName) =
           FailedPodsWeight (config as) + RestartWeight (config as) - 10"
    by (simp add: analyzePodMetrics_def z scoreAnalysis_score t1 t2 t3 t4)
  have r: "AnalysisScore (analyzePodMetrics now as nodeName) = 20" if "config as = reference_scoring"
    using that by (simp add: s reference_scoring_def)
  from t1 t2 t3 t4 s r show ?thesis by (simp add: z)
qed

theorem C10_witness:
  "filter (\<lambda>metric. After (Timestamp metric) (0 - 24 * Hour))
          (GetNodeMetrics (podCache (schedOf reference_scoring NewPodMetricsCache)) ''A'') = [] \<and>
   config (schedOf reference_scoring NewPodMetricsCache) = reference_scoring \<and>
   AnalysisScore (analyzePodMetrics 0 (schedOf reference_scoring NewPodMetricsCache) ''A'') = 20"
proof -
  have h: "filter (\<lambda>metric. After (Timestamp metric) (0 - 24 * Hour))
          (GetNodeMetrics (podCache (schedOf reference_scoring NewPodMetricsCache)) ''A'') = []"
    by (simp add: GetNodeMetrics_def schedOf_def NewPodMetricsCache_def)
  have c: "config (schedOf reference_scoring NewPodMetricsCache) = reference_scoring"
    by (simp add: schedOf_def)
  from C10_empty_history_not_neutral [OF h] h c show ?thesis by simp
qed

text \<open>
  C2. The blender returns the local score unchanged, with the local-only reason, when the
  prediction is unavailable or its answer has no numeric \<open>score\<close>. With numeric score
  \<open>R\<close> and numeric confidence \<open>c\<close> it returns \<open>R * c * 0.7 + L * 0.3\<close>; without a
  numeric confidence, \<open>c\<close> is 0.5.
\<close>

theorem C2_blend_law:
  "(aiAnalysis as nodeName = None \<longrightarrow>
      makeFinalDecision as nodeName L = (L, OnlyGoAlgorithm)) \<and>
   (aiAnalysis as nodeName = Some resp \<and> (\<forall>x. resp ''score'' \<noteq> Some (JNumber x)) \<longrightarrow>
      makeFinalDecision as nodeName L = (L, OnlyGoAlgorithm)) \<and>
   (aiAnalysis as nodeName = Some resp \<and> resp ''score'' = Some (JNumber R) \<and>
    resp ''confidence'' = Some (JNumber c) \<longrightarrow>
      makeFinalDecision as nodeName L =
        (R * c * (7 / 10) + L * (3 / 10),
         FinalScoreReason (R * c * (7 / 10) + L * (3 / 10)) R L c)) \<and>
   (aiAnalysis as nodeName = Some resp \<and> resp ''score'' = Some (JNumber R) \<and>
    (\<forall>x. resp ''confidence'' \<noteq> Some (JNumber x)) \<longrightarrow>
      makeFinalDecision as nodeName L =
        (R * (5 / 10) * (7 / 10) + L * (3 / 10),
         FinalScoreReason (R * (5 / 10) * (7 / 10) + L * (3 / 10)) R L (5 / 10)))"
proof -
  have nonum: "asFloat64 m k = None" if "\<forall>x. m k \<noteq> Some (JNumber x)" for m k
    using that by (auto simp: asFloat64_def split: option.splits JSONValue.splits)
  have num: "asFloat64 m k = Some x" if "m k = Some (JNumber x)" for m k x
    using that by (simp add: asFloat64_def)
  have a: "makeFinalDecision as nodeName L = (L, OnlyGoAlgorithm)"
    if "aiAnalysis as nodeName = None"
    using that by (simp add: makeFinalDecision_def Let_def)
  have b: "makeFinalDecision as nodeName L = (L, OnlyGoAlgorithm)"
    if "aiAnalysis as nodeName = Some resp" "\<forall>x. resp ''score'' \<noteq> Some (JNumber x)"
    using that(1) nonum [of resp "''score''", OF that(2)] by (simp add: makeFinalDecision_def Let_def)
  have c: "makeFinalDecision as nodeName L =
        (R * c * (7 / 10) + L * (3 / 10),
         FinalScoreReason (R * c * (7 / 10) + L * (3 / 10)) R L c)"
    if "aiAnalysis as nodeName = Some resp" "resp ''score'' = Some (JNumber R)"
       "resp ''confidence'' = Some (JNumber c)"
    using that(1) num [of resp "''score''" R, OF that(2)]
      num [of resp "''confidence''" c, OF that(3)] by (simp add: makeFinalDecision_def Let_def)
  have d: "makeFinalDecision as nodeName L =
        (R * (5 / 10) * (7 / 10) + L * (3 / 10),
         FinalScoreReason (R * (5 / 10) * (7 / 10) + L * (3 / 10)) R L (5 / 10))"
    if "aiAnalysis as nodeName = Some resp" "resp ''score'' = Some (JNumber R)"
       "\<forall>x. resp ''confidence'' \<noteq> Some (JNumber x)"
    using that(1) num [of resp "''score''" R, OF that(2)]
      nonum [of resp "''confidence''", OF that(3)] by (simp add: makeFinalDecision_def Let_def)
  from a b c d show ?thesis by blast
qed

theorem C2_witness:
  "makeFinalDecision (schedAI None) ''A'' 100 = (100, OnlyGoAlgorithm) \<and>
   makeFinalDecision (schedAI (Some [''score'' \<mapsto> JString ''high'', ''confidence'' \<mapsto> JNumber 1]))
     ''A'' 100 = (100, OnlyGoAlgorithm) \<and>
   makeFinalDecision (schedAI (Some [''score'' \<mapsto> JNumber 80, ''confidence'' \<mapsto> JNumber 1]))
     ''A'' 100 = (86, FinalScoreReason 86 80 100 1) \<and>
   makeFinalDecision (schedAI (Some [''score'' \<mapsto> JNumber 80])) ''A'' 100 =
     (58, FinalScoreReason 58 80 100 (5 / 10))"
proof -
  let ?r1 = "[''score'' \<mapsto> JString ''high'', ''confidence'' \<mapsto> JNumber 1]"
  let ?r2 = "[''score'' \<mapsto> JNumber 80, ''confidence'' \<mapsto> JNumber 1]"
  let ?r3 = "[''score'' \<mapsto> JNumber 80]"
  have a: "makeFinalDecision (schedAI None) ''A'' 100 = (100, OnlyGoAlgorithm)"
    using C2_blend_law [of "schedAI None" "''A''" 100]
    by (simp add: schedAI_def schedOf_def)
  have b: "makeFinalDecision (schedAI (Some ?r1)) ''A'' 100 = (100, OnlyGoAlgorithm)"
    using C2_blend_law [of "schedAI (Some ?r1)" "''A''" 100 ?r1]
    by (simp add: schedAI_def schedOf_def)
  have c: "makeFinalDecision (schedAI (Some ?r2)) ''A'' 100 = (86, FinalScoreReason 86 80 100 1)"
    using C2_blend_law [of "schedAI (Some ?r2)" "''A''" 100 ?r2 80 1]
    by (simp add: schedAI_def schedOf_def)
  have d: "makeFinalDecision (schedAI (Some ?r3)) ''A'' 100 =
     (58, FinalScoreReason 58 80 100 (5 / 10))"
    using C2_blend_law [of "schedAI (Some ?r3)" "''A''" 100 ?r3 80]
    by (simp add: schedAI_def schedOf_def)
  from a b c d show ?thesis by blast
qed

subsection \<open>Boundaries of the analyzer and of the history tiers\<close>

text \<open>
  C3. For a node with 10 events inside the window, exactly one of them failed and 5 restarts
  in all (average 0.5): the failure rate is 0.1, the stability score 0.85 and there is no
  recommendation (0.1 is not above 0.1, 0.5 not above 2.0, 0.85 not below 0.7). In the
  history term the failure-rate tier takes its else branch and contributes
  \<open>- FailedPodsWeight\<close> (0.1 is neither below 0.05 nor below 0.1), and the stability
  tier contributes \<open>+ FailedPodsWeight\<close>.
\<close>

theorem C3_boundary_semantics:
  assumes "length (filter (\<lambda>metric. After (Timestamp metric) (now - timeWindow))
                     (GetNodeMetrics pmc nodeName)) = 10"
      and "failedPods_of (filter (\<lambda>metric. After (Timestamp metric) (now - timeWindow))
                     (GetNodeMetrics pmc nodeName)) = 1"
      and "totalRestarts_of (filter (\<lambda>metric. After (Timestamp metric) (now - timeWindow))
                     (GetNodeMetrics pmc nodeName)) = 5"
  shows "FailureRate (GetNodeAnalysis now pmc nodeName timeWindow) = 1 / 10 \<and>
         AverageRestartCount (GetNodeAnalysis now pmc nodeName timeWindow) = 5 / 10 \<and>
         StabilityScore (GetNodeAnalysis now pmc nodeName timeWindow) = 85 / 100 \<and>
         Recommendations (GetNodeAnalysis now pmc nodeName timeWindow) = [] \<and>
         fst (failureTerm cfg (FailureRate (GetNodeAnalysis now pmc nodeName timeWindow))) =
           - FailedPodsWeight cfg \<and>
         fst (stabilityTerm cfg (StabilityScore (GetNodeAnalysis now pmc nodeName timeWindow))) =
           FailedPodsWeight cfg"
proof -
  let ?a = "GetNodeAnalysis now pmc nodeName timeWindow"
  define recent where
    "recent = filter (\<lambda>metric. After (Timestamp metric) (now - timeWindow))
                (GetNodeMetrics pmc nodeName)"
  have a: "?a = calculateNodeAnalysis now recent"
    by (simp add: GetNodeAnalysis_def recent_def)
  have len: "length recent = 10" and fp: "failedPods_of recent = 1"
    and tr: "totalRestarts_of recent = 5"
    using assms by (simp_all add: recent_def)
  have ne: "recent \<noteq> []" using len by auto
  have fr: "FailureRate ?a = 1 / 10"
    unfolding a using ne len fp by (simp add: calculateNodeAnalysis_def Let_def)
  have ar: "AverageRestartCount ?a = 5 / 10"
    unfolding a using ne len tr by (simp add: calculateNodeAnalysis_def Let_def)
  have st: "StabilityScore ?a = 85 / 100"
    unfolding a using ne len fp tr by (simp add: calculateNodeAnalysis_def Let_def)
  have rc: "Recommendations ?a = []"
    unfolding a using ne len fp tr by (simp add: calculateNodeAnalysis_def Let_def)
  have ft: "fst (failureTerm cfg (FailureRate ?a)) = - FailedPodsWeight cfg"
    unfolding fr by (simp add: failureTerm_def)
  have stt: "fst (stabilityTerm cfg (StabilityScore ?a)) = FailedPodsWeight cfg"
    unfolding st by (simp add: stabilityTerm_def)
  from fr ar st rc ft stt show ?thesis by blast
qed

lemma c3_recent:
  "filter (\<lambda>metric. After (Timestamp metric) (100 * Hour - 24 * Hour))
     (GetNodeMetrics (cacheOf ''A'' c3_events) ''A'') = c3_events"
  by (simp add: GetNodeMetrics_def cacheOf_def NewPodMetricsCache_def c3_events_def mkPod_def
      After_def Hour_def)

theorem C3_witness:
  "length (filter (\<lambda>metric. After (Timestamp metric) (100 * Hour - 24 * Hour))
                     (GetNodeMetrics (cacheOf ''A'' c3_events) ''A'')) = 10 \<and>
   failedPods_of (filter (\<lambda>metric. After (Timestamp metric) (100 * Hour - 24 * Hour))
                     (GetNodeMetrics (cacheOf ''A'' c3_events) ''A'')) = 1 \<and>
   totalRestarts_of (filter (\<lambda>metric. After (Timestamp metric) (100 * Hour - 24 * Hour))
                     (GetNodeMetrics (cacheOf ''A'' c3_events) ''A'')) = 5 \<and>
   FailureRate (GetNodeAnalysis (100 * Hour) (cacheOf ''A'' c3_events) ''A'' (24 * Hour)) = 1 / 10 \<and>
   StabilityScore (GetNodeAnalysis (100 * Hour) (cacheOf ''A'' c3_events) ''A'' (24 * Hour)) = 85 / 100 \<and>
   Recommendations (GetNodeAnalysis (100 * Hour) (cacheOf ''A'' c3_events) ''A'' (24 * Hour)) = [] \<and>
   fst (failureTerm reference_scoring
         (FailureRate (GetNodeAnalysis (100 * Hour) (cacheOf ''A'' c3_events) ''A'' (24 * Hour)))) = - 20 \<and>
   fst (stabilityTerm reference_scoring
         (StabilityScore (GetNodeAnalysis (100 * Hour) (cacheOf ''A'' c3_events) ''A'' (24 * Hour)))) = 20"
proof -
  have h1: "length (filter (\<lambda>metric. After (Timestamp metric) (100 * Hour - 24 * Hour))
                     (GetNodeMetrics (cacheOf ''A'' c3_events) ''A'')) = 10"
    unfolding c3_recent by (simp add: c3_events_def)
  have h2: "failedPods_of (filter (\<lambda>metric. After (Timestamp metric) (100 * Hour - 24 * Hour))
                     (GetNodeMetrics (cacheOf ''A'' c3_events) ''A'')) = 1"
    unfolding c3_recent by (simp add: c3_events_def failedPods_of_def mkPod_def)
  have h3: "totalRestarts_of (filter (\<lambda>metric. After (Timestamp metric) (100 * Hour - 24 * Hour))
                     (GetNodeMetrics (cacheOf ''A'' c3_events) ''A'')) = 5"
    unfolding c3_recent by (simp add: c3_events_def totalRestarts_of_def mkPod_def)
  have w: "FailedPodsWeight reference_scoring = 20"
    by (simp add: reference_scoring_def)
  from C3_boundary_semantics [OF h1 h2 h3, of reference_scoring] h1 h2 h3 w
  show ?thesis by simp
qed

subsection \<open>The history cache\<close>

lemma After_age: "After t (now - d) \<longleftrightarrow> now - t < d"
  by (auto simp: After_def)

lemma GetNodeMetrics_updateStatistics:
  "GetNodeMetrics (updateStatistics now pmc n) m = GetNodeMetrics pmc m"
  by (simp add: updateStatistics_def GetNodeMetrics_def Let_def)

lemma GetNodeMetrics_cleanOldData:
  "GetNodeMetrics (cleanOldData now pmc n maxAge) m =
     (if m = n then filter (\<lambda>metric. After (Timestamp metric) (now - maxAge)) (GetNodeMetrics pmc n)
      else GetNodeMetrics pmc m)"
  by (simp add: cleanOldData_def GetNodeMetrics_def Let_def)

lemma GetNodeMetrics_UpdateCache:
  "GetNodeMetrics (UpdateCache now pmc e) n =
     (if n = NodeName e
      then filter (\<lambda>metric. After (Timestamp metric) (now - 7 * 24 * Hour))
             (GetNodeMetrics pmc n @ [e])
      else GetNodeMetrics pmc n)"
  by (simp add: UpdateCache_def Let_def GetNodeMetrics_updateStatistics
      GetNodeMetrics_cleanOldData) (simp add: GetNodeMetrics_def)

lemma records_append: "records pmc (ws1 @ ws2) = records (records pmc ws1) ws2"
  by (induction ws1 arbitrary: pmc) auto

lemma records_other_node:
  "\<forall>w \<in> set ws. NodeName (snd w) \<noteq> n \<Longrightarrow>
     GetNodeMetrics (records pmc ws) n = GetNodeMetrics pmc n"
  by (induction ws arbitrary: pmc) (auto simp: GetNodeMetrics_UpdateCache)

text \<open>
  C6. A write appends the event to its node's history and then keeps exactly the events of
  that node observed less than 7 days before the clock value of the write; the histories of
  the other nodes are left as they are. Hence after any sequence of writes, the history of a
  node holds no event that was 7 days old or older at the last write to that node. The
  cache changes only through writes: the reads take the cache and return a value.
\<close>

theorem C6_bounded_retention:
  "GetNodeMetrics (UpdateCache now pmc e) (NodeName e) =
     filter (\<lambda>metric. now - Timestamp metric < 7 * 24 * Hour)
       (GetNodeMetrics pmc (NodeName e) @ [e]) \<and>
   (n \<noteq> NodeName e \<longrightarrow> GetNodeMetrics (UpdateCache now pmc e) n = GetNodeMetrics pmc n) \<and>
   ((\<forall>w \<in> set later. NodeName (snd w) \<noteq> NodeName e) \<longrightarrow>
      (\<forall>metric \<in> set (GetNodeMetrics (records pmc (earlier @ [(now, e)] @ later)) (NodeName e)).
         now - Timestamp metric < 7 * 24 * Hour))"
proof -
  have a: "GetNodeMetrics (UpdateCache now pmc' e) (NodeName e) =
     filter (\<lambda>metric. now - Timestamp metric < 7 * 24 * Hour)
       (GetNodeMetrics pmc' (NodeName e) @ [e])" for pmc'
    by (simp add: GetNodeMetrics_UpdateCache After_age del: filter_append)
  have b: "GetNodeMetrics (UpdateCache now pmc e) n = GetNodeMetrics pmc n"
    if "n \<noteq> NodeName e"
    using that by (simp add: GetNodeMetrics_UpdateCache)
  have c: "\<forall>metric \<in> set (GetNodeMetrics (records pmc (earlier @ [(now, e)] @ later)) (NodeName e)).
         now - Timestamp metric < 7 * 24 * Hour"
    if other: "\<forall>w \<in> set later. NodeName (snd w) \<noteq> NodeName e"
  proof -
    have "records pmc (earlier @ [(now, e)] @ later) =
          records (UpdateCache now (records pmc earlier) e) later"
      by (simp add: records_append)
    then have "GetNodeMetrics (records pmc (earlier @ [(now, e)] @ later)) (NodeName e) =
          GetNodeMetrics (UpdateCache now (records pmc earlier) e) (NodeName e)"
      using records_other_node [OF other] by simp
    then show ?thesis
      unfolding a by simp
  qed
  from a [of pmc] b c show ?thesis by blast
qed

lemma day_simps:
  "NodeName staleA = ''A''" "NodeName freshA = ''A''" "NodeName freshB = ''B''"
  "Timestamp staleA = 0" "Timestamp freshA = 8 * Day" "Timestamp freshB = 9 * Day"
  "Status staleA = ''Failed''" "Status freshA = ''Running''"
  by (simp_all add: staleA_def freshA_def freshB_def mkPod_def)

lemma GetNodeMetrics_New: "GetNodeMetrics NewPodMetricsCache n = []"
  by (simp add: GetNodeMetrics_def NewPodMetricsCache_def)

theorem C6_witness:
  "NodeName (snd (9 * Day, freshB)) \<noteq> NodeName freshA \<and>
   ''B'' \<noteq> NodeName freshA \<and>
   GetNodeMetrics (records NewPodMetricsCache [(0, staleA)]) ''A'' = [staleA] \<and>
   GetNodeMetrics (UpdateCache (8 * Day) (records NewPodMetricsCache [(0, staleA)]) freshA)
     (NodeName freshA) = [freshA] \<and>
   GetNodeMetrics (UpdateCache (8 * Day) (records NewPodMetricsCache [(0, staleA)]) freshA) ''B'' =
     GetNodeMetrics (records NewPodMetricsCache [(0, staleA)]) ''B'' \<and>
   GetNodeMetrics
     (records (records NewPodMetricsCache [(0, staleA)])
        ([] @ [(8 * Day, freshA)] @ [(9 * Day, freshB)]))
     (NodeName freshA) = [freshA] \<and>
   8 * Day - Timestamp freshA < 7 * 24 * Hour"
proof -
  let ?pmc = "records NewPodMetricsCache [(0, staleA)]"
  have h: "\<forall>w \<in> set [(9 * Day, freshB)]. NodeName (snd w) \<noteq> NodeName freshA"
    by (simp add: day_simps)
  have n: "''B'' \<noteq> NodeName freshA"
    by (simp add: day_simps)
  have g0: "GetNodeMetrics ?pmc ''A'' = [staleA]"
    by (simp add: GetNodeMetrics_UpdateCache GetNodeMetrics_New day_simps After_def Day_def Hour_def)
  have g0': "GetNodeMetrics ?pmc (NodeName freshA) = [staleA]"
    using g0 by (simp add: day_simps)
  have f: "filter (\<lambda>metric. 8 * Day - Timestamp metric < 7 * 24 * Hour) ([staleA] @ [freshA]) =
           [freshA]"
    by (simp add: day_simps Day_def Hour_def)
  note c6 = C6_bounded_retention [of "8 * Day" ?pmc freshA "''B''" "[(9 * Day, freshB)]" "[]"]
  have g1: "GetNodeMetrics (UpdateCache (8 * Day) ?pmc freshA) (NodeName freshA) = [freshA]"
    using c6 [THEN conjunct1] unfolding g0' f .
  have g2: "GetNodeMetrics (UpdateCache (8 * Day) ?pmc freshA) ''B'' = GetNodeMetrics ?pmc ''B''"
    using c6 [THEN conjunct2, THEN conjunct1] n by blast
  have all: "\<forall>metric \<in> set (GetNodeMetrics
        (records ?pmc ([] @ [(8 * Day, freshA)] @ [(9 * Day, freshB)])) (NodeName freshA)).
      8 * Day - Timestamp metric < 7 * 24 * Hour"
    using c6 [THEN conjunct2, THEN conjunct2] h by blast
  have g3: "GetNodeMetrics (records ?pmc ([] @ [(8 * Day, freshA)] @ [(9 * Day, freshB)]))
              (NodeName freshA) = [freshA]"
    using g1 by (simp add: GetNodeMetrics_UpdateCache day_simps)
  have age: "8 * Day - Timestamp freshA < 7 * 24 * Hour"
    using all unfolding g3 by simp
  from h n g0 g1 g2 g3 age show ?thesis by simp
qed

subsection \<open>Window filtering after a write\<close>

lemma failedPods_of_snoc:
  "failedPods_of (ms @ [e]) = failedPods_of ms + (if Status e = ''Failed'' then 1 else 0)"
  by (simp add: failedPods_of_def)

lemma GetNodeAnalysis_UpdateCache:
  "GetNodeAnalysis ta (UpdateCache tw pmc e) (NodeName e) w =
     calculateNodeAnalysis ta
       (filter (\<lambda>metric. After (Timestamp metric) (ta - w))
          (filter (\<lambda>metric. After (Timestamp metric) (tw - 7 * 24 * Hour))
             (GetNodeMetrics pmc (NodeName e))) @
        (if After (Timestamp e) (tw - 7 * 24 * Hour) \<and> After (Timestamp e) (ta - w)
         then [e] else []))"
  by (simp add: GetNodeAnalysis_def GetNodeMetrics_UpdateCache)

text \<open>
  C7 as stated fails: a write prunes before any analysis reads. An event observed 8 days
  before the write is dropped by the write itself, so an analysis over a 30-day window, which
  contains the event's observation timestamp, does not count it.
\<close>

theorem C7_counterexample:
  "After (Timestamp staleA) (8 * Day - 30 * Day) \<and>
   GetNodeAnalysis (8 * Day) (UpdateCache (8 * Day) NewPodMetricsCache staleA) (NodeName staleA)
     (30 * Day) = NodeAnalysis_zero \<and>
   TotalPods (GetNodeAnalysis (8 * Day) (UpdateCache (8 * Day) NewPodMetricsCache staleA)
     (NodeName staleA) (30 * Day)) = 0"
proof -
  have a: "After (Timestamp staleA) (8 * Day - 30 * Day)"
    by (simp add: day_simps After_def Day_def Hour_def)
  have b: "GetNodeAnalysis (8 * Day) (UpdateCache (8 * Day) NewPodMetricsCache staleA)
     (NodeName staleA) (30 * Day) = NodeAnalysis_zero"
    unfolding GetNodeAnalysis_UpdateCache
    by (simp add: GetNodeMetrics_New calculateNodeAnalysis_def
        day_simps After_def Day_def Hour_def)
  from a b show ?thesis by (simp add: NodeAnalysis_zero_def)
qed

text \<open>
  C7, amended. Let \<open>kept\<close> be the earlier events of the node that the write at \<open>tw\<close> leaves
  in place. If the written event \<open>e\<close> was observed less than 7 days before the write and its
  age at analysis time is less than the window, then the analysis is computed over the
  in-window events of \<open>kept\<close> followed by \<open>e\<close>: \<open>e\<close> adds one to \<open>TotalPods\<close>, one to
  \<open>FailedPods\<close> when it failed, and enters the failure rate. If the window excludes the
  observation timestamp of \<open>e\<close>, the analysis is computed over the in-window events of
  \<open>kept\<close> alone.
\<close>

theorem C7_window_filtering:
  "(After (Timestamp e) (tw - 7 * 24 * Hour) \<and> ta - Timestamp e < w \<longrightarrow>
      GetNodeAnalysis ta (UpdateCache tw pmc e) (NodeName e) w =
        calculateNodeAnalysis ta
          (filter (\<lambda>metric. ta - Timestamp metric < w)
             (filter (\<lambda>metric. After (Timestamp metric) (tw - 7 * 24 * Hour))
                (GetNodeMetrics pmc (NodeName e))) @ [e]) \<and>
      TotalPods (GetNodeAnalysis ta (UpdateCache tw pmc e) (NodeName e) w) =
        int (length (filter (\<lambda>metric. ta - Timestamp metric < w)
             (filter (\<lambda>metric. After (Timestamp metric) (tw - 7 * 24 * Hour))
                (GetNodeMetrics pmc (NodeName e))))) + 1 \<and>
      FailedPods (GetNodeAnalysis ta (UpdateCache tw pmc e) (NodeName e) w) =
        failedPods_of (filter (\<lambda>metric. ta - Timestamp metric < w)
             (filter (\<lambda>metric. After (Timestamp metric) (tw - 7 * 24 * Hour))
                (GetNodeMetrics pmc (NodeName e)))) +
        (if Status e = ''Failed'' then 1 else 0) \<and>
      FailureRate (GetNodeAnalysis ta (UpdateCache tw pmc e) (NodeName e) w) =
        real_of_int (FailedPods (GetNodeAnalysis ta (UpdateCache tw pmc e) (NodeName e) w)) /
        real_of_int (TotalPods (GetNodeAnalysis ta (UpdateCache tw pmc e) (NodeName e) w))) \<and>
   (\<not> ta - Timestamp e < w \<longrightarrow>
      GetNodeAnalysis ta (UpdateCache tw pmc e) (NodeName e) w =
        calculateNodeAnalysis ta
          (filter (\<lambda>metric. ta - Timestamp metric < w)
             (filter (\<lambda>metric. After (Timestamp metric) (tw - 7 * 24 * Hour))
                (GetNodeMetrics pmc (NodeName e)))))"
proof -
  define kept where
    "kept = filter (\<lambda>metric. ta - Timestamp metric < w)
             (filter (\<lambda>metric. After (Timestamp metric) (tw - 7 * 24 * Hour))
                (GetNodeMetrics pmc (NodeName e)))"
  let ?a = "GetNodeAnalysis ta (UpdateCache tw pmc e) (NodeName e) w"
  have inside: "?a = calculateNodeAnalysis ta (kept @ [e])"
    if "After (Timestamp e) (tw - 7 * 24 * Hour)" "ta - Timestamp e < w"
    using that by (simp add: GetNodeAnalysis_UpdateCache After_age kept_def)
  have outside: "?a = calculateNodeAnalysis ta kept" if "\<not> ta - Timestamp e < w"
    using that by (simp add: GetNodeAnalysis_UpdateCache After_age kept_def)
  have tp: "TotalPods (calculateNodeAnalysis ta (kept @ [e])) = int (length kept) + 1"
    by (simp add: calculateNodeAnalysis_def Let_def)
  have fp: "FailedPods (calculateNodeAnalysis ta (kept @ [e])) =
              failedPods_of kept + (if Status e = ''Failed'' then 1 else 0)"
    by (simp add: calculateNodeAnalysis_def Let_def failedPods_of_snoc)
  have fr: "FailureRate (calculateNodeAnalysis ta (kept @ [e])) =
              real_of_int (FailedPods (calculateNodeAnalysis ta (kept @ [e]))) /
              real_of_int (TotalPods (calculateNodeAnalysis ta (kept @ [e])))"
    by (simp add: calculateNodeAnalysis_def Let_def)
  from inside outside tp fp fr show ?thesis
    unfolding kept_def by presburger
qed

lemma earlyA_simps:
  "NodeName earlyA = ''A''" "Timestamp earlyA = 7 * Day + 23 * Hour" "Status earlyA = ''Failed''"
  by (simp_all add: earlyA_def mkPod_def)

lemma GetNodeMetrics_cacheOf: "GetNodeMetrics (cacheOf n ms) n = ms"
  by (simp add: GetNodeMetrics_def cacheOf_def NewPodMetricsCache_def)

theorem C7_witness:
  "After (Timestamp freshA) (8 * Day - 7 * 24 * Hour) \<and>
   8 * Day - Timestamp freshA < 24 * Hour \<and>
   TotalPods (GetNodeAnalysis (8 * Day) (UpdateCache (8 * Day) (cacheOf ''A'' [earlyA]) freshA)
     (NodeName freshA) (24 * Hour)) = 2 \<and>
   FailedPods (GetNodeAnalysis (8 * Day) (UpdateCache (8 * Day) (cacheOf ''A'' [earlyA]) freshA)
     (NodeName freshA) (24 * Hour)) = 1 \<and>
   FailureRate (GetNodeAnalysis (8 * Day) (UpdateCache (8 * Day) (cacheOf ''A'' [earlyA]) freshA)
     (NodeName freshA) (24 * Hour)) = 1 / 2 \<and>
   \<not> 10 * Day - Timestamp freshA < 24 * Hour \<and>
   GetNodeAnalysis (10 * Day) (UpdateCache (8 * Day) (cacheOf ''A'' [earlyA]) freshA)
     (NodeName freshA) (24 * Hour) = NodeAnalysis_zero"
proof -
  have h1: "After (Timestamp freshA) (8 * Day - 7 * 24 * Hour)"
    by (simp add: day_simps After_def Day_def Hour_def)
  have h2: "8 * Day - Timestamp freshA < 24 * Hour"
    by (simp add: day_simps Day_def Hour_def)
  have h3: "\<not> 10 * Day - Timestamp freshA < 24 * Hour"
    by (simp add: day_simps Day_def Hour_def)
  have k: "GetNodeMetrics (cacheOf ''A'' [earlyA]) (NodeName freshA) = [earlyA]"
    by (simp add: day_simps GetNodeMetrics_cacheOf)
  have f1: "filter (\<lambda>metric. 8 * Day - Timestamp metric < 24 * Hour)
              (filter (\<lambda>metric. After (Timestamp metric) (8 * Day - 7 * 24 * Hour)) [earlyA]) =
            [earlyA]"
    by (simp add: earlyA_simps After_def Day_def Hour_def)
  have f2: "filter (\<lambda>metric. 10 * Day - Timestamp metric < 24 * Hour)
              (filter (\<lambda>metric. After (Timestamp metric) (8 * Day - 7 * 24 * Hour)) [earlyA]) =
            []"
    by (simp add: earlyA_simps After_def Day_def Hour_def)
  have fp: "failedPods_of [earlyA] = 1"
    by (simp add: failedPods_of_def earlyA_simps)
  have st: "Status freshA \<noteq> ''Failed''"
    by (simp add: day_simps)
  have z: "calculateNodeAnalysis (10 * Day) [] = NodeAnalysis_zero"
    by (simp add: calculateNodeAnalysis_def)
  have inside:
    "TotalPods (GetNodeAnalysis (8 * Day) (UpdateCache (8 * Day) (cacheOf ''A'' [earlyA]) freshA)
       (NodeName freshA) (24 * Hour)) = 2 \<and>
     FailedPods (GetNodeAnalysis (8 * Day) (UpdateCache (8 * Day) (cacheOf ''A'' [earlyA]) freshA)
       (NodeName freshA) (24 * Hour)) = 1 \<and>
     FailureRate (GetNodeAnalysis (8 * Day) (UpdateCache (8 * Day) (cacheOf ''A'' [earlyA]) freshA)
       (NodeName freshA) (24 * Hour)) = 1 / 2"
    using C7_window_filtering [of freshA "8 * Day" "8 * Day" "24 * Hour" "cacheOf ''A'' [earlyA]",
        THEN conjunct1, THEN mp, OF conjI [OF h1 h2], THEN conjunct2, unfolded k f1 fp] st
    by simp
  have outside:
    "GetNodeAnalysis (10 * Day) (UpdateCache (8 * Day) (cacheOf ''A'' [earlyA]) freshA)
       (NodeName freshA) (24 * Hour) = NodeAnalysis_zero"
    using C7_window_filtering [of freshA "8 * Day" "10 * Day" "24 * Hour" "cacheOf ''A'' [earlyA]",
        THEN conjunct2, THEN mp, OF h3, unfolded k f2 z]
    by simp
  from h1 h2 h3 inside outside show ?thesis by blast
qed

subsection \<open>The scoring engine\<close>

lemma calculateNodeScore_fst:
  "fst (calculateNodeScore now as node) =
     fst (cpuTerm as node) + fst (memTerm as node) + fst (readyTerm as node) +
     fst (taintTerm as node) + AnalysisScore (analyzePodMetrics now as (Name node))"
  by (simp add: calculateNodeScore_def split_beta Let_def)

lemma linear_score_le:
  fixes w u c :: real
  assumes "0 \<le> w" "0 \<le> u" "0 < c"
  shows "(if w * (1 - (u / c) * 100 / 100) < 0 then 0 else w * (1 - (u / c) * 100 / 100)) \<le> w"
proof -
  define x where "x = w * (1 - (u / c) * 100 / 100)"
  have "0 \<le> u / c" using assms(2,3) by simp
  then have "1 - (u / c) * 100 / 100 \<le> 1" by simp
  then have "w * (1 - (u / c) * 100 / 100) \<le> w * 1"
    using assms(1) by (rule mult_left_mono)
  then have "x \<le> w" by (simp add: x_def)
  then have "(if x < 0 then 0 else x) \<le> w" using assms(1) by simp
  then show ?thesis by (simp only: x_def)
qed

lemma cpuTerm_le:
  assumes "0 \<le> cpuUsage_of as (Name node)" "0 \<le> CPUWeight (config as)"
  shows "fst (cpuTerm as node) \<le> CPUWeight (config as)"
proof (cases "Allocatable node ''cpu''")
  case None
  then show ?thesis using assms by (simp add: cpuTerm_def)
next
  case (Some cpu)
  show ?thesis
  proof (cases "IsZero cpu \<or> \<not> 0 < real_of_int (MilliValue cpu) / 1000")
    case True
    then show ?thesis using Some assms by (auto simp: cpuTerm_def Let_def)
  next
    case False
    then have cap: "0 < real_of_int (MilliValue cpu) / 1000" by simp
    have eq: "fst (cpuTerm as node) =
        (if CPUWeight (config as) *
              (1 - (cpuUsage_of as (Name node) / (real_of_int (MilliValue cpu) / 1000)) * 100 / 100) < 0
         then 0
         else CPUWeight (config as) *
              (1 - (cpuUsage_of as (Name node) / (real_of_int (MilliValue cpu) / 1000)) * 100 / 100))"
      using Some False by (simp add: cpuTerm_def Let_def)
    show ?thesis
      unfolding eq by (rule linear_score_le [OF assms(2) assms(1) cap])
  qed
qed

lemma memTerm_le:
  assumes "0 \<le> memUsage_of as (Name node)" "0 \<le> MemoryWeight (config as)"
  shows "fst (memTerm as node) \<le> MemoryWeight (config as)"
proof (cases "Allocatable node ''memory''")
  case None
  then show ?thesis using assms by (simp add: memTerm_def)
next
  case (Some memory)
  show ?thesis
  proof (cases "IsZero memory \<or> \<not> 0 < real_of_int (QValue memory) / (1024 * 1024 * 1024)")
    case True
    then show ?thesis using Some assms by (auto simp: memTerm_def Let_def)
  next
    case False
    then have cap: "0 < real_of_int (QValue memory) / (1024 * 1024 * 1024)" by simp
    have eq: "fst (memTerm as node) =
        (if MemoryWeight (config as) *
              (1 - (memUsage_of as (Name node) /
                    (real_of_int (QValue memory) / (1024 * 1024 * 1024))) * 100 / 100) < 0
         then 0
         else MemoryWeight (config as) *
              (1 - (memUsage_of as (Name node) /
                    (real_of_int (QValue memory) / (1024 * 1024 * 1024))) * 100 / 100))"
      using Some False by (simp add: memTerm_def Let_def)
    show ?thesis
      unfolding eq by (rule linear_score_le [OF assms(2) assms(1) cap])
  qed
qed

lemma readyTerm_le: "0 \<le> NodeReadyWeight (config as) \<Longrightarrow>
    fst (readyTerm as node) \<le> NodeReadyWeight (config as)"
  by (simp add: readyTerm_def)

lemma taintTerm_le: "0 \<le> TaintWeight (config as) \<Longrightarrow>
    fst (taintTerm as node) \<le> TaintWeight (config as)"
  by (simp add: taintTerm_def)

lemma scoreAnalysis_le:
  assumes "0 \<le> FailedPodsWeight cfg" "0 \<le> RestartWeight cfg"
  shows "AnalysisScore (scoreAnalysis cfg a) \<le> 2 * FailedPodsWeight cfg + RestartWeight cfg + 10"
proof -
  have 1: "fst (stabilityTerm cfg (StabilityScore a)) \<le> FailedPodsWeight cfg"
    using assms(1) by (simp add: stabilityTerm_def)
  have 2: "fst (failureTerm cfg (FailureRate a)) \<le> FailedPodsWeight cfg"
    using assms(1) by (simp add: failureTerm_def)
  have 3: "fst (restartTerm cfg (AverageRestartCount a)) \<le> RestartWeight cfg"
    using assms(2) by (simp add: restartTerm_def)
  have 4: "fst (lifetimeTerm (AverageLifetime a)) \<le> 10"
    by (simp add: lifetimeTerm_def)
  from 1 2 3 4 show ?thesis by (simp add: scoreAnalysis_score)
qed

lemma healthy_analysis:
  "GetNodeAnalysis (100 * Hour) (podCache healthySched) (Name healthyNode) (24 * Hour) =
     \<lparr>AnalysisNodeName = ''A'', TotalPods = 1, FailedPods = 0, SuccessfulPods = 1,
      FailureRate = 0, AverageRestartCount = 0, AverageLifetime = 100 * Hour,
      StabilityScore = 1, Recommendations = []\<rparr>"
  by (simp add: healthySched_def schedOf_def healthyNode_def GetNodeAnalysis_def
      GetNodeMetrics_cacheOf mkPod_def After_def Hour_def calculateNodeAnalysis_def Let_def
      failedPods_of_def totalRestarts_of_def totalLifetime_of_def duration_div_def)

lemma healthy_inputs:
  "config healthySched = reference_scoring"
  "list_ex (\<lambda>condition. CondType condition = NodeReady \<and> CondStatus condition = ConditionTrue)
     (Conditions healthyNode)"
  "Taints healthyNode = []"
  "Allocatable healthyNode ''cpu'' = Some (Quantity 4000)"
  "Allocatable healthyNode ''memory'' = Some (Quantity 8589934592000)"
  "cpuUsage_of healthySched (Name healthyNode) = 0"
  "memUsage_of healthySched (Name healthyNode) = 0"
  by (simp_all add: healthySched_def schedOf_def healthyNode_def NodeReady_def ConditionTrue_def
      cpuUsage_of_def memUsage_of_def)

text \<open>
  C1 as stated fails: the history term adds \<open>FailedPodsWeight\<close> twice, once in the stability
  tier and once in the failure-rate tier. The healthy node scores
  \<open>30 + 30 + 20 + 10 + 20 + 20 + 10 + 10 = 150\<close>, not 130.
\<close>

theorem C1_counterexample:
  "config healthySched = reference_scoring \<and>
   fst (cpuTerm healthySched healthyNode) = 30 \<and>
   fst (memTerm healthySched healthyNode) = 30 \<and>
   fst (readyTerm healthySched healthyNode) = 20 \<and>
   fst (taintTerm healthySched healthyNode) = 10 \<and>
   StabilityScore (GetNodeAnalysis (100 * Hour) (podCache healthySched) (Name healthyNode) (24 * Hour)) = 1 \<and>
   FailureRate (GetNodeAnalysis (100 * Hour) (podCache healthySched) (Name healthyNode) (24 * Hour)) = 0 \<and>
   AverageRestartCount (GetNodeAnalysis (100 * Hour) (podCache healthySched) (Name healthyNode) (24 * Hour)) = 0 \<and>
   AverageLifetime (GetNodeAnalysis (100 * Hour) (podCache healthySched) (Name healthyNode) (24 * Hour)) = 100 * Hour \<and>
   AnalysisScore (analyzePodMetrics (100 * Hour) healthySched (Name healthyNode)) = 60 \<and>
   fst (calculateNodeScore (100 * Hour) healthySched healthyNode) = 150 \<and>
   fst (calculateNodeScore (100 * Hour) healthySched healthyNode) \<noteq> 130"
proof -
  have c: "fst (cpuTerm healthySched healthyNode) = 30"
    by (simp add: cpuTerm_def healthy_inputs Let_def reference_scoring_def)
  have m: "fst (memTerm healthySched healthyNode) = 30"
    by (simp add: memTerm_def healthy_inputs Let_def reference_scoring_def)
  have r: "fst (readyTerm healthySched healthyNode) = 20"
    by (simp add: readyTerm_def healthy_inputs reference_scoring_def)
  have t: "fst (taintTerm healthySched healthyNode) = 10"
    by (simp add: taintTerm_def healthy_inputs reference_scoring_def)
  have h: "AnalysisScore (analyzePodMetrics (100 * Hour) healthySched (Name healthyNode)) = 60"
    unfolding analyzePodMetrics_def healthy_analysis scoreAnalysis_score
    by (simp add: healthy_inputs reference_scoring_def stabilityTerm_def failureTerm_def
        restartTerm_def lifetimeTerm_def Hour_def)
  have s: "fst (calculateNodeScore (100 * Hour) healthySched healthyNode) = 150"
    by (simp add: calculateNodeScore_fst c m r t h)
  from c m r t h s show ?thesis
    by (simp add: healthy_inputs healthy_analysis)
qed

lemma cpuTerm_idle:
  assumes "Allocatable node ''cpu'' = Some cpu" "0 < MilliValue cpu"
    "cpuUsage_of as (Name node) = 0" "0 \<le> CPUWeight (config as)"
  shows "fst (cpuTerm as node) = CPUWeight (config as)"
proof -
  have "\<not> IsZero cpu" using assms(2) by (cases cpu) simp
  then show ?thesis using assms by (simp add: cpuTerm_def Let_def)
qed

lemma memTerm_idle:
  assumes "Allocatable node ''memory'' = Some memory" "0 < QValue memory"
    "memUsage_of as (Name node) = 0" "0 \<le> MemoryWeight (config as)"
  shows "fst (memTerm as node) = MemoryWeight (config as)"
proof -
  have "\<not> IsZero memory" using assms(2) by (cases memory) auto
  then show ?thesis using assms by (simp add: memTerm_def Let_def)
qed

text \<open>
  C1, amended. Under the reference weights, a node that is ready, untainted, has positive
  CPU and memory capacity with usage 0, and whose 24h analysis hits the best tier of every
  history criterion scores \<open>30 + 30 + 20 + 10 + 20 + 20 + 10 + 10 = 150\<close>; and every node
  whose live usage is not negative scores at most 150.
\<close>

theorem C1_reference_score:
  assumes "config as = reference_scoring"
  shows
  "(list_ex (\<lambda>condition. CondType condition = NodeReady \<and> CondStatus condition = ConditionTrue)
      (Conditions node) \<and>
    Taints node = [] \<and>
    Allocatable node ''cpu'' = Some cpu \<and> 0 < MilliValue cpu \<and>
    Allocatable node ''memory'' = Some memory \<and> 0 < QValue memory \<and>
    cpuUsage_of as (Name node) = 0 \<and> memUsage_of as (Name node) = 0 \<and>
    8 / 10 < StabilityScore (GetNodeAnalysis now (podCache as) (Name node) (24 * Hour)) \<and>
    FailureRate (GetNodeAnalysis now (podCache as) (Name node) (24 * Hour)) < 5 / 100 \<and>
    AverageRestartCount (GetNodeAnalysis now (podCache as) (Name node) (24 * Hour)) \<le> 1 \<and>
    24 * Hour < AverageLifetime (GetNodeAnalysis now (podCache as) (Name node) (24 * Hour)) \<longrightarrow>
      fst (calculateNodeScore now as node) = 150) \<and>
   (0 \<le> cpuUsage_of as (Name node) \<and> 0 \<le> memUsage_of as (Name node) \<longrightarrow>
      fst (calculateNodeScore now as node) \<le> 150)"
proof -
  have w: "CPUWeight (config as) = 30" "MemoryWeight (config as) = 30"
    "NodeReadyWeight (config as) = 20" "TaintWeight (config as) = 10"
    "FailedPodsWeight (config as) = 20" "RestartWeight (config as) = 10"
    using assms by (simp_all add: reference_scoring_def)
  let ?a = "GetNodeAnalysis now (podCache as) (Name node) (24 * Hour)"
  have best: "fst (calculateNodeScore now as node) = 150"
    if rd: "list_ex (\<lambda>condition. CondType condition = NodeReady \<and>
                        CondStatus condition = ConditionTrue) (Conditions node)"
      and tn: "Taints node = []"
      and cpu: "Allocatable node ''cpu'' = Some cpu" "0 < MilliValue cpu"
      and mem: "Allocatable node ''memory'' = Some memory" "0 < QValue memory"
      and use: "cpuUsage_of as (Name node) = 0" "memUsage_of as (Name node) = 0"
      and st: "8 / 10 < StabilityScore ?a" and fr: "FailureRate ?a < 5 / 100"
      and rs: "AverageRestartCount ?a \<le> 1" and lt: "24 * Hour < AverageLifetime ?a"
  proof -
    have c: "fst (cpuTerm as node) = 30"
      using cpuTerm_idle [OF cpu use(1)] w by simp
    have m: "fst (memTerm as node) = 30"
      using memTerm_idle [OF mem use(2)] w by simp
    have r: "fst (readyTerm as node) = 20"
      using rd w by (simp add: readyTerm_def)
    have t: "fst (taintTerm as node) = 10"
      using tn w by (simp add: taintTerm_def)
    have h: "AnalysisScore (analyzePodMetrics now as (Name node)) = 60"
      using st fr rs lt w
      by (simp add: analyzePodMetrics_def scoreAnalysis_score stabilityTerm_def failureTerm_def
          restartTerm_def lifetimeTerm_def)
    show ?thesis by (simp add: calculateNodeScore_fst c m r t h)
  qed
  have bound: "fst (calculateNodeScore now as node) \<le> 150"
    if use: "0 \<le> cpuUsage_of as (Name node)" "0 \<le> memUsage_of as (Name node)"
  proof -
    have c: "fst (cpuTerm as node) \<le> 30"
      using cpuTerm_le [OF use(1)] w by simp
    have m: "fst (memTerm as node) \<le> 30"
      using memTerm_le [OF use(2)] w by simp
    have r: "fst (readyTerm as node) \<le> 20"
      using readyTerm_le [of as node] w by simp
    have t: "fst (taintTerm as node) \<le> 10"
      using taintTerm_le [of as node] w by simp
    have h: "AnalysisScore (analyzePodMetrics now as (Name node)) \<le> 60"
      using scoreAnalysis_le [of "config as" ?a] w by (simp add: analyzePodMetrics_def)
    from c m r t h show ?thesis by (simp add: calculateNodeScore_fst)
  qed
  from best bound show ?thesis by blast
qed

theorem C1_witness:
  "config healthySched = reference_scoring \<and>
   list_ex (\<lambda>condition. CondType condition = NodeReady \<and> CondStatus condition = ConditionTrue)
      (Conditions healthyNode) \<and>
   Taints healthyNode = [] \<and>
   Allocatable healthyNode ''cpu'' = Some (Quantity 4000) \<and> 0 < MilliValue (Quantity 4000) \<and>
   Allocatable healthyNode ''memory'' = Some (Quantity 8589934592000) \<and>
   0 < QValue (Quantity 8589934592000) \<and>
   cpuUsage_of healthySched (Name healthyNode) = 0 \<and>
   memUsage_of healthySched (Name healthyNode) = 0 \<and>
   8 / 10 < StabilityScore (GetNodeAnalysis (100 * Hour) (podCache healthySched) (Name healthyNode) (24 * Hour)) \<and>
   FailureRate (GetNodeAnalysis (100 * Hour) (podCache healthySched) (Name healthyNode) (24 * Hour)) < 5 / 100 \<and>
   AverageRestartCount (GetNodeAnalysis (100 * Hour) (podCache healthySched) (Name healthyNode) (24 * Hour)) \<le> 1 \<and>
   24 * Hour < AverageLifetime (GetNodeAnalysis (100 * Hour) (podCache healthySched) (Name healthyNode) (24 * Hour)) \<and>
   fst (calculateNodeScore (100 * Hour) healthySched healthyNode) = 150 \<and>
   fst (calculateNodeScore (100 * Hour) healthySched healthyNode) \<le> 150"
proof -
  have q: "0 < MilliValue (Quantity 4000)" "0 < QValue (Quantity 8589934592000)"
    by simp_all
  have a: "8 / 10 < StabilityScore (GetNodeAnalysis (100 * Hour) (podCache healthySched) (Name healthyNode) (24 * Hour))"
    "FailureRate (GetNodeAnalysis (100 * Hour) (podCache healthySched) (Name healthyNode) (24 * Hour)) < 5 / 100"
    "AverageRestartCount (GetNodeAnalysis (100 * Hour) (podCache healthySched) (Name healthyNode) (24 * Hour)) \<le> 1"
    "24 * Hour < AverageLifetime (GetNodeAnalysis (100 * Hour) (podCache healthySched) (Name healthyNode) (24 * Hour))"
    unfolding healthy_analysis by (simp_all add: Hour_def)
  have u: "0 \<le> cpuUsage_of healthySched (Name healthyNode) \<and>
           0 \<le> memUsage_of healthySched (Name healthyNode)"
    by (simp add: healthy_inputs)
  from C1_reference_score [OF healthy_inputs(1), of healthyNode "Quantity 4000"
      "Quantity 8589934592000" "100 * Hour"] healthy_inputs q a u
  show ?thesis by blast
qed

subsection \<open>Selection of the best node\<close>

lemma bestNodeLoop_append:
  "bestNodeLoop now as (xs @ ys) st = bestNodeLoop now as ys (bestNodeLoop now as xs st)"
proof (induction xs arbitrary: st)
  case Nil
  then show ?case by (cases st) simp
next
  case (Cons x xs)
  obtain bn bs where st: "st = (bn, bs)" by (cases st)
  show ?case unfolding st using Cons.IH by (simp add: split_beta Let_def)
qed

lemma bestNodeLoop_keep:
  "\<forall>m \<in> set nodes. fst (calculateNodeScore now as m) \<le> bs \<Longrightarrow>
     bestNodeLoop now as nodes (bn, bs) = (bn, bs)"
  by (induction nodes) (auto simp: split_beta Let_def)

lemma bestNodeLoop_below:
  "\<forall>m \<in> set nodes. fst (calculateNodeScore now as m) < s \<Longrightarrow> bs < s \<Longrightarrow>
     snd (bestNodeLoop now as nodes (bn, bs)) < s"
  by (induction nodes arbitrary: bn bs) (auto simp: split_beta Let_def)

text \<open>
  What the loop does select: when the best score is above the initial \<open>bestScore\<close> of
  \<open>-1\<close>, the first node that attains it.
\<close>

lemma PredictBestNode_first_max:
  assumes "podLookup as namespace podName"
    and "nodeItems as = Some (pre @ node # post)"
    and "\<forall>m \<in> set pre. fst (calculateNodeScore now as m) < fst (calculateNodeScore now as node)"
    and "\<forall>m \<in> set post. fst (calculateNodeScore now as m) \<le> fst (calculateNodeScore now as node)"
    and "- 1 < fst (calculateNodeScore now as node)"
  shows "PredictBestNode now as podName namespace =
           Inr (Some \<lparr>ScoreNodeName = Name node,
                      Score = fst (calculateNodeScore now as node),
                      Reason = snd (calculateNodeScore now as node)\<rparr>)"
proof -
  let ?s = "fst (calculateNodeScore now as node)"
  obtain bn bs where pre: "bestNodeLoop now as pre (None, - 1) = (bn, bs)"
    by (cases "bestNodeLoop now as pre (None, - 1)")
  have "snd (bestNodeLoop now as pre (None, - 1)) < ?s"
    using bestNodeLoop_below [OF assms(3) assms(5)] .
  then have lt: "bs < ?s" by (simp add: pre)
  have "bestNodeLoop now as (pre @ node # post) (None, - 1) =
        bestNodeLoop now as (node # post) (bn, bs)"
    by (simp add: bestNodeLoop_append pre)
  also have "\<dots> = bestNodeLoop now as post
        (Some \<lparr>ScoreNodeName = Name node, Score = ?s,
                Reason = snd (calculateNodeScore now as node)\<rparr>, ?s)"
    using lt by (simp add: split_beta Let_def)
  also have "\<dots> = (Some \<lparr>ScoreNodeName = Name node, Score = ?s,
                Reason = snd (calculateNodeScore now as node)\<rparr>, ?s)"
    using assms(4) by (rule bestNodeLoop_keep)
  finally show ?thesis using assms(1,2) by (simp add: PredictBestNode_def)
qed

lemma bad_history:
  "name = ''A'' \<or> name = ''B'' \<Longrightarrow> GetNodeMetrics badCache name = [badPod name]"
  by (auto simp: GetNodeMetrics_def badCache_def NewPodMetricsCache_def)

lemma bad_analysis:
  assumes "name = ''A'' \<or> name = ''B''"
  shows "GetNodeAnalysis (100 * Hour) badCache name (24 * Hour) =
     \<lparr>AnalysisNodeName = name, TotalPods = 1, FailedPods = 1, SuccessfulPods = 0,
      FailureRate = 1, AverageRestartCount = 3, AverageLifetime = 1800000000000,
      StabilityScore = - (3 / 10),
      Recommendations = [RecHighFailureRate, RecHighRestartRate, RecLowStability]\<rparr>"
  unfolding GetNodeAnalysis_def bad_history [OF assms]
  by (simp add: badPod_def mkPod_def After_def Hour_def calculateNodeAnalysis_def Let_def
      failedPods_of_def totalRestarts_of_def totalLifetime_of_def duration_div_def)

lemma bad_history_score:
  assumes "name = ''A'' \<or> name = ''B''"
  shows "AnalysisScore (analyzePodMetrics (100 * Hour) (badSched nodes) name) = - 40"
proof -
  have c: "config (badSched nodes) = reference_scoring" "podCache (badSched nodes) = badCache"
    by (simp_all add: badSched_def schedOf_def)
  show ?thesis
    unfolding analyzePodMetrics_def c bad_analysis [OF assms] scoreAnalysis_score
    by (simp add: reference_scoring_def stabilityTerm_def failureTerm_def restartTerm_def
        lifetimeTerm_def Hour_def)
qed

lemma badNode_terms:
  "fst (cpuTerm as (badNode name)) = 0" "fst (memTerm as (badNode name)) = 0"
  "fst (readyTerm as (badNode name)) = 0" "fst (taintTerm as (badNode name)) = 0"
  "Name (badNode name) = name"
  by (simp_all add: cpuTerm_def memTerm_def readyTerm_def taintTerm_def badNode_def
      NodeReady_def ConditionTrue_def)

lemma badNode_score:
  "name = ''A'' \<or> name = ''B'' \<Longrightarrow>
     fst (calculateNodeScore (100 * Hour) (badSched nodes) (badNode name)) = - 40"
  by (simp add: calculateNodeScore_fst badNode_terms bad_history_score)

text \<open>
  C4. The code at two inputs on which the pod lookup and the node listing succeed: with no
  node in the cluster, and with the single unhealthy node \<open>A\<close>, whose score of \<open>-40\<close> is
  not above the initial \<open>bestScore\<close> of \<open>-1\<close>. In both the result is no score together with
  no error.
\<close>

theorem C4_no_score_no_error:
  "PredictBestNode (100 * Hour) (badSched []) ''pod'' ''default'' = Inr None \<and>
   fst (calculateNodeScore (100 * Hour) (badSched [badNode ''A'']) (badNode ''A'')) = - 40 \<and>
   PredictBestNode (100 * Hour) (badSched [badNode ''A'']) ''pod'' ''default'' = Inr None"
proof -
  have e: "PredictBestNode (100 * Hour) (badSched []) ''pod'' ''default'' = Inr None"
    by (simp add: PredictBestNode_def badSched_def schedOf_def)
  have s: "fst (calculateNodeScore (100 * Hour) (badSched [badNode ''A'']) (badNode ''A'')) = - 40"
    by (simp add: badNode_score)
  have "bestNodeLoop (100 * Hour) (badSched [badNode ''A'']) [badNode ''A''] (None, - 1) = (None, - 1)"
    by (rule bestNodeLoop_keep) (simp add: s)
  then have p: "PredictBestNode (100 * Hour) (badSched [badNode ''A'']) ''pod'' ''default'' = Inr None"
    by (simp add: PredictBestNode_def badSched_def schedOf_def)
  from e s p show ?thesis by blast
qed

text \<open>
  C5. The code at a node list whose two nodes \<open>A\<close> and \<open>B\<close> both attain the maximal score
  \<open>-40\<close>: the first of them is not returned, the result is no score.
\<close>

theorem C5_tie_below_initial_best:
  "fst (calculateNodeScore (100 * Hour) (badSched [badNode ''A'', badNode ''B'']) (badNode ''A'')) = - 40 \<and>
   fst (calculateNodeScore (100 * Hour) (badSched [badNode ''A'', badNode ''B'']) (badNode ''B'')) = - 40 \<and>
   PredictBestNode (100 * Hour) (badSched [badNode ''A'', badNode ''B'']) ''pod'' ''default'' = Inr None"
proof -
  let ?as = "badSched [badNode ''A'', badNode ''B'']"
  have a: "fst (calculateNodeScore (100 * Hour) ?as (badNode ''A'')) = - 40"
    by (simp add: badNode_score)
  have b: "fst (calculateNodeScore (100 * Hour) ?as (badNode ''B'')) = - 40"
    by (simp add: badNode_score)
  have "bestNodeLoop (100 * Hour) ?as [badNode ''A'', badNode ''B''] (None, - 1) = (None, - 1)"
    by (rule bestNodeLoop_keep) (simp add: a b)
  then have p: "PredictBestNode (100 * Hour) ?as ''pod'' ''default'' = Inr None"
    by (simp add: PredictBestNode_def badSched_def schedOf_def)
  from a b p show ?thesis by blast
qed

subsection \<open>A tie above the initial best score\<close>

lemma analyzePodMetrics_empty:
  assumes "filter (\<lambda>metric. After (Timestamp metric) (now - 24 * Hour))
             (GetNodeMetrics (podCache as) nodeName) = []"
  shows "AnalysisScore (analyzePodMetrics now as nodeName) =
           FailedPodsWeight (config as) + RestartWeight (config as) - 10"
proof -
  have z: "GetNodeAnalysis now (podCache as) nodeName (24 * Hour) = NodeAnalysis_zero"
    using assms by (simp add: GetNodeAnalysis_def calculateNodeAnalysis_def)
  show ?thesis
    unfolding analyzePodMetrics_def z scoreAnalysis_score
    by (simp add: NodeAnalysis_zero_def stabilityTerm_def failureTerm_def restartTerm_def
        lifetimeTerm_def Hour_def)
qed

lemma idleNode_score:
  assumes "name \<noteq> ''A''"
  shows "fst (calculateNodeScore (100 * Hour) (idleSched nodes) (idleNode name)) = 110"
proof -
  let ?as = "idleSched nodes"
  have cfg: "config ?as = reference_scoring"
    by (simp add: idleSched_def healthySched_def schedOf_def)
  have w: "0 \<le> CPUWeight (config ?as)" "0 \<le> MemoryWeight (config ?as)"
    by (simp_all add: cfg reference_scoring_def)
  have al: "Allocatable (idleNode name) ''cpu'' = Some (Quantity 4000)"
    "Allocatable (idleNode name) ''memory'' = Some (Quantity 8589934592000)"
    by (simp_all add: idleNode_def healthyNode_def)
  have us: "cpuUsage_of ?as (Name (idleNode name)) = 0" "memUsage_of ?as (Name (idleNode name)) = 0"
    by (simp_all add: cpuUsage_of_def memUsage_of_def idleSched_def healthySched_def)
  have c: "fst (cpuTerm ?as (idleNode name)) = 30"
    using cpuTerm_idle [OF al(1) _ us(1) w(1)] by (simp add: cfg reference_scoring_def)
  have m: "fst (memTerm ?as (idleNode name)) = 30"
    using memTerm_idle [OF al(2) _ us(2) w(2)] by (simp add: cfg reference_scoring_def)
  have r: "fst (readyTerm ?as (idleNode name)) = 20"
    by (simp add: readyTerm_def idleNode_def healthyNode_def NodeReady_def ConditionTrue_def
        cfg reference_scoring_def)
  have t: "fst (taintTerm ?as (idleNode name)) = 10"
    by (simp add: taintTerm_def idleNode_def healthyNode_def cfg reference_scoring_def)
  have e: "filter (\<lambda>metric. After (Timestamp metric) (100 * Hour - 24 * Hour))
             (GetNodeMetrics (podCache ?as) (Name (idleNode name))) = []"
    using assms
    by (simp add: idleSched_def healthySched_def schedOf_def idleNode_def GetNodeMetrics_def
        cacheOf_def NewPodMetricsCache_def)
  have h: "AnalysisScore (analyzePodMetrics (100 * Hour) ?as (Name (idleNode name))) = 20"
    using analyzePodMetrics_empty [OF e] by (simp add: cfg reference_scoring_def)
  show ?thesis by (simp add: calculateNodeScore_fst c m r t h)
qed

text \<open>
  Two idle nodes \<open>C\<close> and \<open>D\<close> without history both score 110; the first one is returned.
\<close>

lemma PredictBestNode_tie_example:
  "PredictBestNode (100 * Hour) (idleSched [idleNode ''C'', idleNode ''D'']) ''pod'' ''default'' =
     Inr (Some \<lparr>ScoreNodeName = ''C'', Score = 110,
                Reason = snd (calculateNodeScore (100 * Hour)
                                (idleSched [idleNode ''C'', idleNode ''D'']) (idleNode ''C''))\<rparr>)"
proof -
  let ?as = "idleSched [idleNode ''C'', idleNode ''D'']"
  have c: "fst (calculateNodeScore (100 * Hour) ?as (idleNode ''C'')) = 110"
    by (rule idleNode_score) simp
  have d: "fst (calculateNodeScore (100 * Hour) ?as (idleNode ''D'')) = 110"
    by (rule idleNode_score) simp
  have l: "podLookup ?as ''default'' ''pod''"
    by (simp add: idleSched_def healthySched_def schedOf_def)
  have n: "nodeItems ?as = Some ([] @ idleNode ''C'' # [idleNode ''D''])"
    by (simp add: idleSched_def)
  have pre: "\<forall>m \<in> set []. fst (calculateNodeScore (100 * Hour) ?as m) <
               fst (calculateNodeScore (100 * Hour) ?as (idleNode ''C''))"
    by simp
  have post: "\<forall>m \<in> set [idleNode ''D'']. fst (calculateNodeScore (100 * Hour) ?as m) \<le>
               fst (calculateNodeScore (100 * Hour) ?as (idleNode ''C''))"
    by (simp add: c d)
  have above: "- 1 < fst (calculateNodeScore (100 * Hour) ?as (idleNode ''C''))"
    by (simp add: c)
  have nm: "Name (idleNode ''C'') = ''C''"
    by (simp add: idleNode_def)
  from PredictBestNode_first_max [OF l n pre post above] show ?thesis
    by (simp add: c nm)
qed

end
